theory Spec2Isabelle
  imports Complex_Main
begin

section \<open>Data model\<close>

text \<open>
  The rows of the relational store, as the Sequelize models declare them. Primary keys
  (BIGINT, auto-increment) are natural numbers, DECIMAL(78,0) balances and amounts are
  integers in minor units, USD values are rationals. A table is the list of its rows.
  A field name that several models share carries the model's name as a prefix.
\<close>

datatype order_direction = Buy | Sell

datatype order_type = Swap | Limit | Dca

datatype order_status =
  Created | Processing | Submitting | Submitted | Confirming | Confirmed | Failed
  | LimitNew | LimitFilled | LimitPartiallyFilled

datatype wallet_status = Active | Suspended

record token =
  token_id :: nat
  contractAddress :: string
  unitDecimals :: nat

record key =
  key_id :: nat
  privateKey :: string

record wallet =
  wallet_id :: nat
  wallet_userId :: nat
  parentId :: "nat option"
  tokenId :: nat
  keyId :: nat
  address :: string
  confirmedBalance :: int
  unconfirmedBalance :: int
  wallet_status :: wallet_status

record market =
  market_id :: nat
  poolAddress :: string
  baseTokenId :: nat
  quoteTokenId :: nat

record user =
  user_id :: nat
  telegramId :: string
  defaultWalletId :: "nat option"
  selectedTransactionId :: string
  selectedOrderDirection :: order_direction
  selectedOrderType :: order_type
  selectedPoolAddress :: "string option"
  selectedInputMint :: "string option"
  selectedOutputMint :: "string option"
  selectedInputAmount :: rat
  selectedInputDecimals :: nat
  selectedEstimatedOutput :: "rat option"
  selectedOutputDecimals :: nat
  selectedPriceImpact :: int
  selectedSellPercent :: int
  selectedSellAmount :: rat
  selectedTokenUsdPrice :: rat
  selectedSlippage :: nat
  selectedDCAInAmount :: nat
  selectedDCAInAmountPerCycle :: nat
  selectedDCACycleSecondsApart :: nat

record block_hash =
  blockhash :: string
  lastValidBlockHeight :: nat

record order_details =
  recentBlockHash :: "block_hash option"
  priorityFee :: nat

record order =
  order_id :: nat
  order_userId :: nat
  marketId :: nat
  inputWalletId :: nat
  outputWalletId :: nat
  transactionId :: string
  inAmount :: int
  inAmountInUsd :: rat
  outAmount :: "int option"
  commission :: int
  networkFee :: int
  orderType :: order_type
  orderDirection :: order_direction
  limitOrder :: "string option"
  dcaPubKey :: "string option"
  succeeded :: bool
  status :: order_status
  details :: "order_details option"

record pnl =
  pnl_id :: nat
  pnl_walletId :: nat
  cumulativeBuyQuantity :: int
  cumulativeBuyCostInUsd :: rat
  cumulativeBuyCostInSol :: int
  cumulativeSellQuantity :: int
  cumulativeSellProceedsInUsd :: rat
  cumulativeSellProceedsInSol :: int
  isClosed :: bool

record database =
  users :: "user list"
  wallets :: "wallet list"
  orders :: "order list"
  pnls :: "pnl list"
  tokens :: "token list"
  markets :: "market list"
  keys :: "key list"

text \<open>The auto-increment of a primary key: an id above every id of the table.\<close>

definition next_id :: "nat list \<Rightarrow> nat" where
  "next_id ids = Suc (fold max ids 0)"

section \<open>External collaborators\<close>

text \<open>
  What the Solana RPC node answers for a signature. \<open>confirmTransaction\<close> returns a
  response, returns nothing, throws TransactionExpiredBlockheightExceededError, or throws
  another error. \<open>getParsedTransaction\<close> returns the parsed transaction or null.
\<close>

datatype confirm_result =
  ConfirmationReturned | NoConfirmation | BlockheightExceeded | ConfirmFailed

record token_balance =
  mint :: string
  owner :: "string option"
  amount :: int

record transaction_meta =
  err :: bool
  fee :: nat
  preBalances :: "int list"
  postBalances :: "int list"
  preTokenBalances :: "token_balance list option"
  postTokenBalances :: "token_balance list option"

record parsed_transaction =
  meta :: "transaction_meta option"
  accountKeys :: "string list"

text \<open>The exceptions of the submission path, one constructor for each \<open>throw\<close>.\<close>

datatype error =
  UserNotFound
  | NoDefaultWallet
  | SellPercentNotSet
  | PoolAddressNotSet
  | InputMintNotSet
  | OutputMintNotSet
  | EstimatedOutputNotSet
  | SelectionNotSetCorrectly
  | WalletNotFound
  | InsufficientBalance
  | PriceUnavailable
  | BuilderFailed
  | MarketNotFound
  | WalletTransactionOngoing
  | OrderValidationFailed
  | DuplicateTransactionId
  | SendFailed

text \<open>
  What \<open>createSwapTransaction\<close> returns, with the message already compiled and signed:
  \<open>signature\<close> is \<open>bs58.encode(transaction.signatures[0])\<close>. The pool-specific
  builders are external collaborators.
\<close>

record swap_transaction =
  signature :: string
  inputATA :: string
  outputATA :: string
  rawInAmount :: int
  swapInAmountInUsd :: rat
  ourFeeInLamports :: int

text \<open>
  The environment of one run: the RPC node, the price cache and the rows other database
  transactions hold locked (queries with \<open>skipLocked\<close> do not see them).
  \<open>createSwapTransaction\<close> takes the user as selected, the amount, the token price and
  the priority fee; \<open>priorityFeeHigh\<close> and \<open>currentBlockhash\<close> are the process-wide
  caches \<open>priorityFeeEstimate\<close> and \<open>recentBlockhash\<close>.
\<close>

record env =
  confirmTransaction :: "string \<Rightarrow> confirm_result"
  getParsedTransaction :: "string \<Rightarrow> parsed_transaction option"
  sendRawTransaction :: "string \<Rightarrow> string option"
  solPriceUsd :: "rat option"
  lockedUserIds :: "nat list"
  lockedWalletIds :: "nat list"
  lockedOrderIds :: "nat list"
  webhookReachable :: bool
  createSwapTransaction :: "user \<Rightarrow> rat \<Rightarrow> rat \<Rightarrow> nat \<Rightarrow> swap_transaction option"
  priorityFeeHigh :: nat
  currentBlockhash :: block_hash

text \<open>
  The calls that leave the process, the boundaries of a database transaction and the
  statements issued inside it.
\<close>

datatype db_table = UsersTable | WalletsTable | OrdersTable | PnlsTable

datatype event =
  TxBegin | TxCommit | TxRollback
  | DbWrite db_table
  | SendRawTransaction string
  | ConfirmTransactionCall string
  | GetParsedTransactionCall string
  | WebhookPost string bool

record 'a outcome =
  db_after :: database
  trace :: "event list"
  result :: 'a

section \<open>Balance ledger (cronjobs/check-confirmation.ts)\<close>

text \<open>\<open>Wallet.update(values, {where: {id}})\<close>: every row with that id.\<close>

definition Wallet_update :: "(wallet \<Rightarrow> wallet) \<Rightarrow> nat \<Rightarrow> wallet list \<Rightarrow> wallet list" where
  "Wallet_update f wid ws = map (\<lambda>w. if wallet_id w = wid then f w else w) ws"

text \<open>
  \<open>updateWalletBalances\<close>: three relative updates, issued in this order on one
  connection. The second is issued for a buy only, the third on success only.
\<close>

definition updateWalletBalances ::
  "order_direction \<Rightarrow> int \<Rightarrow> int \<Rightarrow> int \<Rightarrow> int \<Rightarrow> nat \<Rightarrow> nat \<Rightarrow> nat \<Rightarrow> bool
     \<Rightarrow> wallet list \<Rightarrow> wallet list" where
  "updateWalletBalances orderDirection' orderInAmount orderOutAmount txFee commission'
       inputWalletId' inputParentWalletId outputWalletId' transactionSucceeded ws =
     (let ws1 = Wallet_update
            (\<lambda>w. w\<lparr>confirmedBalance :=
                       confirmedBalance w + (if transactionSucceeded then 0 else orderInAmount),
                    unconfirmedBalance := unconfirmedBalance w - orderInAmount\<rparr>)
            inputWalletId' ws;
          ws2 = (if orderDirection' = Buy
                 then Wallet_update
                   (\<lambda>w. w\<lparr>confirmedBalance :=
                       confirmedBalance w
                         - ((if transactionSucceeded then commission' else 0) + txFee)\<rparr>)
                   inputParentWalletId ws1
                 else ws1);
          ws3 = (if transactionSucceeded
                 then Wallet_update
                   (\<lambda>w. w\<lparr>confirmedBalance := confirmedBalance w + orderOutAmount\<rparr>)
                   outputWalletId' ws2
                 else ws2)
      in ws3)"

text \<open>
  The order as \<open>getOrderById\<close> loads it: the row with its user, the user's default
  wallet, and the input and output wallets with their tokens.
\<close>

record loaded_order =
  row :: order
  order_user :: user
  order_defaultWallet :: wallet
  inputWallet :: wallet
  inputToken :: token
  outputWallet :: wallet
  outputToken :: token

text \<open>
  \<open>order.inputWallet?.parentId! || order.inputWallet?.id!\<close>: the fee-paying wallet.
  The ids are BIGINT columns, which the store returns as text, so that every parentId
  that is not null is taken.
\<close>

definition feeWalletId :: "loaded_order \<Rightarrow> nat" where
  "feeWalletId ord =
     (case parentId (inputWallet ord) of
        Some p \<Rightarrow> p
      | None \<Rightarrow> wallet_id (inputWallet ord))"

text \<open>
  \<open>order.save\<close> after a failure writes networkFee, status and succeeded. The Order
  model validates \<open>networkFee\<close> and \<open>outAmount\<close> with \<open>min: 0\<close>: a save of a
  negative value rejects and writes nothing.
\<close>

definition Order_save_failed :: "nat \<Rightarrow> int \<Rightarrow> order list \<Rightarrow> order list" where
  "Order_save_failed oid txFee os =
     map (\<lambda>r. if order_id r = oid
               then r\<lparr>networkFee := txFee, succeeded := False, status := Failed\<rparr>
               else r) os"

text \<open>
  \<open>handleTransactionFailure\<close>: the two promises of \<open>Promise.all\<close> start together
  on the one connection, so the wallet statements are issued also when the save rejects.
  The second component says whether both resolved.
\<close>

definition handleTransactionFailure ::
  "database \<Rightarrow> loaded_order \<Rightarrow> int \<Rightarrow> bool \<Rightarrow> database \<times> bool" where
  "handleTransactionFailure db ord txFee transactionSucceeded =
     (let ws = updateWalletBalances (orderDirection (row ord)) (inAmount (row ord)) 0
                 txFee 0 (inputWalletId (row ord)) (feeWalletId ord)
                 (outputWalletId (row ord)) transactionSucceeded (wallets db)
      in if 0 \<le> txFee
         then (db\<lparr>orders := Order_save_failed (order_id (row ord)) txFee (orders db),
                  wallets := ws\<rparr>, True)
         else (db\<lparr>wallets := ws\<rparr>, False))"

section \<open>Numbers as text\<close>

text \<open>
  The close test of a position compares two texts. The first is BigNumber's
  \<open>toString\<close> of an integer: the sign and the decimal digits, and exponential
  notation from the exponent 21 on (EXPONENTIAL_AT is left at its default), with the
  zeros at the end of the coefficient dropped. The second is the text in which the
  store (the dialect is postgres) returns a DECIMAL(156,78) column: the output of a
  numeric value carries the 78 digits of the declared scale after the point.
\<close>

definition digit_char :: "nat \<Rightarrow> char" where
  "digit_char d = ''0123456789'' ! d"

fun decimal_digits :: "nat \<Rightarrow> string" where
  "decimal_digits n =
     (if n < 10 then [digit_char n]
      else decimal_digits (n div 10) @ [digit_char (n mod 10)])"

declare decimal_digits.simps [simp del]

definition strip_trailing_zeros :: "string \<Rightarrow> string" where
  "strip_trailing_zeros ds = rev (dropWhile (\<lambda>c. c = CHR ''0'') (rev ds))"

definition BigNumber_toString :: "int \<Rightarrow> string" where
  "BigNumber_toString n =
     (let ds = decimal_digits (nat \<bar>n\<bar>);
          sign = (if n < 0 then ''-'' else [])
      in if length ds \<le> 21 then sign @ ds
         else (let c = strip_trailing_zeros ds
               in sign @ [hd c] @ (if tl c = [] then [] else CHR ''.'' # tl c)
                    @ ''e+'' @ decimal_digits (length ds - 1)))"

definition DECIMAL_text :: "nat \<Rightarrow> int \<Rightarrow> string" where
  "DECIMAL_text scale n =
     (if n < 0 then ''-'' else []) @ decimal_digits (nat \<bar>n\<bar>)
       @ (if scale = 0 then [] else CHR ''.'' # replicate scale CHR ''0'')"

section \<open>PnL ledger (cronjobs/check-confirmation.ts)\<close>

definition PnL_findOne_open :: "nat \<Rightarrow> pnl list \<Rightarrow> pnl option" where
  "PnL_findOne_open walletId ps = find (\<lambda>p. pnl_walletId p = walletId \<and> \<not> isClosed p) ps"

definition PnL_update :: "(pnl \<Rightarrow> pnl) \<Rightarrow> nat \<Rightarrow> pnl list \<Rightarrow> pnl list" where
  "PnL_update f pid ps = map (\<lambda>r. if pnl_id r = pid then f r else r) ps"

text \<open>
  \<open>updateOrCreatePnL\<close>. With no open position of the wallet a position is created from
  the order, whatever its direction; the model validators (\<open>min: 0\<close>) reject a negative
  value, and \<open>isClosed\<close> takes its default, false. A buy adds to the buy side and does
  not write \<open>isClosed\<close>. A sell looks the SOL price up (the lookup may throw), adds to
  the sell side and writes \<open>isClosed\<close> as the comparison (\<open>===\<close>) of two texts:
  BigNumber's \<open>toString\<close> of the sum of the quantities read before the update, and
  \<open>pnl.cumulativeBuyQuantity\<close>, the text of the DECIMAL(156,78) column as read. The
  result is None when the promise rejects. The rounding
  of the store on the DECIMAL(20,7) USD columns is left out: USD values stay exact.
\<close>

definition updateOrCreatePnL ::
  "env \<Rightarrow> nat \<Rightarrow> loaded_order \<Rightarrow> int \<Rightarrow> int \<Rightarrow> pnl list \<Rightarrow> pnl list option" where
  "updateOrCreatePnL e baseWalletId ord baseTokenBalanceChange quoteTokenBalanceChange ps =
     (case PnL_findOne_open baseWalletId ps of
        None \<Rightarrow>
          if baseTokenBalanceChange < 0 \<or> inAmount (row ord) < 0 \<or> inAmountInUsd (row ord) < 0
          then None
          else Some (ps @
            [\<lparr>pnl_id = next_id (map pnl_id ps),
              pnl_walletId = baseWalletId,
              cumulativeBuyQuantity = baseTokenBalanceChange,
              cumulativeBuyCostInUsd = inAmountInUsd (row ord),
              cumulativeBuyCostInSol = inAmount (row ord),
              cumulativeSellQuantity = 0,
              cumulativeSellProceedsInUsd = 0,
              cumulativeSellProceedsInSol = 0,
              isClosed = False\<rparr>])
      | Some p \<Rightarrow>
          if orderDirection (row ord) = Buy
          then Some (PnL_update
            (\<lambda>r. r\<lparr>cumulativeBuyQuantity := cumulativeBuyQuantity r + baseTokenBalanceChange,
                    cumulativeBuyCostInSol := cumulativeBuyCostInSol r + inAmount (row ord),
                    cumulativeBuyCostInUsd := cumulativeBuyCostInUsd r + inAmountInUsd (row ord)\<rparr>)
            (pnl_id p) ps)
          else (case solPriceUsd e of
              None \<Rightarrow> None
            | Some solPrice \<Rightarrow> Some (PnL_update
                (\<lambda>r. r\<lparr>cumulativeSellQuantity := cumulativeSellQuantity r + inAmount (row ord),
                        cumulativeSellProceedsInSol :=
                          cumulativeSellProceedsInSol r + quoteTokenBalanceChange,
                        cumulativeSellProceedsInUsd :=
                          cumulativeSellProceedsInUsd r
                            + solPrice * (of_int quoteTokenBalanceChange / 1000000000),
                        isClosed :=
                          (BigNumber_toString (cumulativeSellQuantity p + inAmount (row ord))
                             = DECIMAL_text 78 (cumulativeBuyQuantity p))\<rparr>)
                (pnl_id p) ps)))"

section \<open>Settlement (cronjobs/check-confirmation.ts)\<close>

text \<open>\<open>order.save\<close> after a success writes outAmount, networkFee, status and succeeded.\<close>

definition Order_save_confirmed :: "nat \<Rightarrow> int \<Rightarrow> int \<Rightarrow> order list \<Rightarrow> order list" where
  "Order_save_confirmed oid out txFee os =
     map (\<lambda>r. if order_id r = oid
               then r\<lparr>outAmount := Some out, networkFee := txFee, succeeded := True,
                      status := Confirmed\<rparr>
               else r) os"

text \<open>
  \<open>updateOrderWalletPnL\<close>: the three promises of \<open>Promise.all\<close> start together on the
  one connection. When the save or the PnL promise rejects, the statements of the others
  are issued all the same; the second component says whether all three resolved.
\<close>

definition updateOrderWalletPnL ::
  "env \<Rightarrow> database \<Rightarrow> nat \<Rightarrow> loaded_order \<Rightarrow> int \<Rightarrow> int \<Rightarrow> int \<Rightarrow> bool \<Rightarrow> database \<times> bool" where
  "updateOrderWalletPnL e db baseWalletId ord baseTokenBalanceChange txFee
       quoteTokenBalanceChange transactionSucceeded =
     (let out = (if orderDirection (row ord) = Buy then baseTokenBalanceChange
                 else quoteTokenBalanceChange);
          saved = (0 \<le> out \<and> 0 \<le> txFee);
          db1 = db\<lparr>orders := (if saved
                              then Order_save_confirmed (order_id (row ord)) out txFee (orders db)
                              else orders db),
                   wallets := updateWalletBalances (orderDirection (row ord))
                     (inAmount (row ord)) out txFee (commission (row ord))
                     (inputWalletId (row ord)) (feeWalletId ord) (outputWalletId (row ord))
                     transactionSucceeded (wallets db)\<rparr>
      in case updateOrCreatePnL e baseWalletId ord baseTokenBalanceChange
                quoteTokenBalanceChange (pnls db) of
           None \<Rightarrow> (db1, False)
         | Some ps \<Rightarrow> (db1\<lparr>pnls := ps\<rparr>, saved))"

text \<open>
  \<open>getOrderById\<close>: every include is \<open>required\<close> (an inner join), so the order is
  null when its user, the user's default wallet, a wallet or a wallet's token is missing.
\<close>

definition getOrderById :: "database \<Rightarrow> nat \<Rightarrow> loaded_order option" where
  "getOrderById db orderId =
     Option.bind (find (\<lambda>r. order_id r = orderId) (orders db)) (\<lambda>r.
     Option.bind (find (\<lambda>u. user_id u = order_userId r) (users db)) (\<lambda>u.
     Option.bind (defaultWalletId u) (\<lambda>dwid.
     Option.bind (find (\<lambda>w. wallet_id w = dwid) (wallets db)) (\<lambda>dw.
     Option.bind (find (\<lambda>w. wallet_id w = inputWalletId r) (wallets db)) (\<lambda>iw.
     Option.bind (find (\<lambda>t. token_id t = tokenId iw) (tokens db)) (\<lambda>it.
     Option.bind (find (\<lambda>w. wallet_id w = outputWalletId r) (wallets db)) (\<lambda>ow.
     Option.bind (find (\<lambda>t. token_id t = tokenId ow) (tokens db)) (\<lambda>ot.
       Some \<lparr>row = r, order_user = u, order_defaultWallet = dw, inputWallet = iw,
             inputToken = it, outputWallet = ow, outputToken = ot\<rparr>))))))))"

text \<open>\<open>String.prototype.toLowerCase\<close> on the ASCII text of an address.\<close>

definition toLowerCase :: "string \<Rightarrow> string" where
  "toLowerCase s =
     map (\<lambda>c. let n = (of_char c :: nat) in if 65 \<le> n \<and> n \<le> 90 then char_of (n + 32) else c) s"

definition balanceMatches :: "string \<Rightarrow> string \<Rightarrow> token_balance \<Rightarrow> bool" where
  "balanceMatches mintAddress ownerAddress tb =
     (toLowerCase (mint tb) = toLowerCase mintAddress \<and>
      (case owner tb of
         None \<Rightarrow> False
       | Some ow \<Rightarrow> toLowerCase ow = toLowerCase ownerAddress))"

text \<open>
  \<open>calculateBaseTokenChanges\<close>: the last matching post balance, minus every matching
  pre balance. The caller has checked that both lists are there.
\<close>

definition calculateBaseTokenChanges ::
  "token_balance list \<Rightarrow> token_balance list \<Rightarrow> string \<Rightarrow> string \<Rightarrow> int" where
  "calculateBaseTokenChanges post pre mintAddress ownerAddress =
     fold (\<lambda>tb acc. if balanceMatches mintAddress ownerAddress tb then acc - amount tb else acc)
       pre
       (fold (\<lambda>tb acc. if balanceMatches mintAddress ownerAddress tb then amount tb else acc)
          post 0)"

text \<open>
  \<open>new BN(number)\<close> asserts that the number is below 2^53 in magnitude. Lamport sums
  are JavaScript numbers; they are exact below that bound, which is where the model
  follows them. The constructor reads \<open>number || 0\<close>, so that NaN gives 0.
\<close>

definition BN_of_number :: "int \<Rightarrow> int option" where
  "BN_of_number n = (if \<bar>n\<bar> < 2 ^ 53 then Some n else None)"

fun findIndex :: "('a \<Rightarrow> bool) \<Rightarrow> 'a list \<Rightarrow> nat option" where
  "findIndex P [] = None"
| "findIndex P (x # xs) =
     (if P x then Some 0 else map_option Suc (findIndex P xs))"

text \<open>
  \<open>calculateQuoteTokenBalanceChange\<close>: the lamport balance of the default wallet, post
  minus pre. For an account that is not among the keys \<open>findIndex\<close> gives -1, the
  two entries are undefined and their difference is NaN; so is the difference when a
  balance entry is missing. \<open>new BN(NaN)\<close> is 0.
\<close>

definition calculateQuoteTokenBalanceChange ::
  "parsed_transaction \<Rightarrow> transaction_meta \<Rightarrow> string \<Rightarrow> int option" where
  "calculateQuoteTokenBalanceChange transactionInfo m defaultWalletAddress =
     (case findIndex (\<lambda>k. k = defaultWalletAddress) (accountKeys transactionInfo) of
        None \<Rightarrow> Some 0
      | Some i \<Rightarrow>
          if i < length (postBalances m) \<and> i < length (preBalances m)
          then BN_of_number (postBalances m ! i - preBalances m ! i)
          else Some 0)"

definition calculateTransactionFee :: "transaction_meta \<Rightarrow> int option" where
  "calculateTransactionFee m = BN_of_number (sum_list (preBalances m) - sum_list (postBalances m))"

record check_result =
  success :: bool
  result_status :: order_status
  message :: string

text \<open>
  The guard on \<open>order.details\<close>: the details, the blockhash record, a non-zero
  \<open>lastValidBlockHeight\<close> and a non-empty \<open>blockhash\<close> must all be there.
\<close>

definition hasBlockhash :: "order \<Rightarrow> bool" where
  "hasBlockhash r =
     (case details r of
        None \<Rightarrow> False
      | Some d \<Rightarrow>
          (case recentBlockHash d of
             None \<Rightarrow> False
           | Some bh \<Rightarrow> lastValidBlockHeight bh \<noteq> 0 \<and> blockhash bh \<noteq> []))"

text \<open>
  The part of \<open>checkConfirmation\<close> that follows the lookup, once the parsed transaction
  is at hand (from \<open>if (transactionInfo.meta?.err)\<close> to the end). A transaction that
  landed with an execution error is settled as failed with the fee of its metadata
  (\<open>meta.fee || 0\<close>); otherwise the balance changes are computed and the order is settled
  as confirmed. An exception leaves the function through the outer \<open>catch\<close>, which logs
  it: the result is then undefined (None).
\<close>

definition settleParsedTransaction ::
  "env \<Rightarrow> database \<Rightarrow> loaded_order \<Rightarrow> parsed_transaction \<Rightarrow> database \<times> check_result option" where
  "settleParsedTransaction e db ord transactionInfo =
     (case meta transactionInfo of
        None \<Rightarrow> (db, None)
      | Some m \<Rightarrow>
          if err m
          then (case handleTransactionFailure db ord (int (fee m)) False of
                  (db', True) \<Rightarrow>
                    (db', Some \<lparr>success = False, result_status = Failed,
                                message = ''Transaction failed.''\<rparr>)
                | (db', False) \<Rightarrow> (db', None))
          else (case (preTokenBalances m, postTokenBalances m) of
              (Some pre, Some post) \<Rightarrow>
                (let baseWallet = (if orderDirection (row ord) = Buy then outputWallet ord
                                   else inputWallet ord);
                     baseToken = (if orderDirection (row ord) = Buy then outputToken ord
                                  else inputToken ord);
                     baseTokenBalanceChange = calculateBaseTokenChanges post pre
                       (contractAddress baseToken) (address (order_defaultWallet ord))
                 in case calculateQuoteTokenBalanceChange transactionInfo m
                           (address (order_defaultWallet ord)) of
                      None \<Rightarrow> (db, None)
                    | Some quoteTokenBalanceChange \<Rightarrow>
                        (case calculateTransactionFee m of
                           None \<Rightarrow> (db, None)
                         | Some txFee \<Rightarrow>
                             (case updateOrderWalletPnL e db (wallet_id baseWallet) ord
                                     baseTokenBalanceChange txFee quoteTokenBalanceChange True of
                                (db', True) \<Rightarrow>
                                  (db', Some \<lparr>success = True, result_status = Confirmed,
                                              message = ''Transaction confirmed.''\<rparr>)
                              | (db', False) \<Rightarrow> (db', None))))
            | _ \<Rightarrow> (db, None)))"

text \<open>
  \<open>checkConfirmation\<close>, run inside the reconciler's database transaction. The trace
  lists the calls to the RPC node.
\<close>

definition checkConfirmation :: "env \<Rightarrow> database \<Rightarrow> nat \<Rightarrow> check_result option outcome" where
  "checkConfirmation e db orderId =
     (case getOrderById db orderId of
        None \<Rightarrow> \<lparr>db_after = db, trace = [], result = None\<rparr>
      | Some ord \<Rightarrow>
          if transactionId (row ord) = [] then \<lparr>db_after = db, trace = [], result = None\<rparr>
          else if \<not> hasBlockhash (row ord) then \<lparr>db_after = db, trace = [], result = None\<rparr>
          else if status (row ord) = Confirmed \<or> status (row ord) = Failed
          then \<lparr>db_after = db, trace = [],
                result = Some \<lparr>success = False, result_status = status (row ord),
                               message = ''Transaction already processed.''\<rparr>\<rparr>
          else (let sig = transactionId (row ord) in
            case confirmTransaction e sig of
              ConfirmFailed \<Rightarrow>
                \<lparr>db_after = db, trace = [ConfirmTransactionCall sig], result = None\<rparr>
            | NoConfirmation \<Rightarrow>
                \<lparr>db_after = db, trace = [ConfirmTransactionCall sig], result = None\<rparr>
            | BlockheightExceeded \<Rightarrow>
                (case getParsedTransaction e sig of
                   None \<Rightarrow>
                     (case handleTransactionFailure db ord 0 False of
                        (db', resolved) \<Rightarrow>
                          \<lparr>db_after = db',
                           trace = [ConfirmTransactionCall sig, GetParsedTransactionCall sig],
                           result = (if resolved
                                     then Some \<lparr>success = False, result_status = Failed,
                                                message = ''Transaction failed.''\<rparr>
                                     else None)\<rparr>)
                 | Some transactionInfo \<Rightarrow>
                     (case settleParsedTransaction e db ord transactionInfo of
                        (db', r) \<Rightarrow>
                          \<lparr>db_after = db',
                           trace = [ConfirmTransactionCall sig, GetParsedTransactionCall sig],
                           result = r\<rparr>))
            | ConfirmationReturned \<Rightarrow>
                (case getParsedTransaction e sig of
                   None \<Rightarrow>
                     \<lparr>db_after = db,
                      trace = [ConfirmTransactionCall sig, GetParsedTransactionCall sig],
                      result = None\<rparr>
                 | Some transactionInfo \<Rightarrow>
                     (case settleParsedTransaction e db ord transactionInfo of
                        (db', r) \<Rightarrow>
                          \<lparr>db_after = db',
                           trace = [ConfirmTransactionCall sig, GetParsedTransactionCall sig],
                           result = r\<rparr>))))"

section \<open>The reconciler's pass (the cron job \<open>start\<close>)\<close>

text \<open>
  \<open>Order.findAll({where: {status: 'submitted'}, lock: true, skipLocked: true})\<close>.
\<close>

definition selectSubmitted :: "env \<Rightarrow> database \<Rightarrow> order list" where
  "selectSubmitted e db =
     filter (\<lambda>r. status r = Submitted \<and> order_id r \<notin> set (lockedOrderIds e)) (orders db)"

text \<open>
  The loop over the selected orders. After a defined result the user is read and the
  webhook is posted; a missing user or a failing post throws out of the loop (no
  database is returned).
\<close>

fun checkSelected :: "env \<Rightarrow> order list \<Rightarrow> database \<Rightarrow> event list \<Rightarrow> database option \<times> event list" where
  "checkSelected e [] db tr = (Some db, tr)"
| "checkSelected e (r # rs) db tr =
     (let c = checkConfirmation e db (order_id r) in
      case result c of
        None \<Rightarrow> checkSelected e rs (db_after c) (tr @ trace c)
      | Some res \<Rightarrow>
          (case find (\<lambda>u. user_id u = order_userId r) (users (db_after c)) of
             None \<Rightarrow> (None, tr @ trace c)
           | Some u \<Rightarrow>
               if webhookReachable e
               then checkSelected e rs (db_after c)
                      (tr @ trace c @ [WebhookPost (telegramId u) (success res)])
               else (None, tr @ trace c @ [WebhookPost (telegramId u) (success res)])))"

text \<open>
  One firing of the cron job: a managed transaction around the selection and the loop.
  It commits when the callback returns and rolls back when the callback throws.
\<close>

definition start :: "env \<Rightarrow> database \<Rightarrow> bool outcome" where
  "start e db =
     (case checkSelected e (selectSubmitted e db) db [TxBegin] of
        (None, tr) \<Rightarrow> \<lparr>db_after = db, trace = tr @ [TxRollback], result = False\<rparr>
      | (Some db', tr) \<Rightarrow> \<lparr>db_after = db', trace = tr @ [TxCommit], result = True\<rparr>)"

section \<open>Order submission (routers/v1/order: utils and create)\<close>

definition NATIVE_MINT :: string where
  "NATIVE_MINT = ''So11111111111111111111111111111111111111112''"

definition NATIVE_MINT_2022 :: string where
  "NATIVE_MINT_2022 = ''9pan9bMn5HatX4EJdBwg9VgCa7Uz5HL8N1m5D3NdXejP''"

text \<open>A nullable text column read in a condition: null and the empty text are falsy.\<close>

definition unset :: "string option \<Rightarrow> bool" where
  "unset x = (case x of None \<Rightarrow> True | Some t \<Rightarrow> t = [])"

text \<open>The user with the default wallet and its key, both \<open>required\<close> includes.\<close>

record loaded_user =
  user_row :: user
  user_defaultWallet :: wallet
  user_key :: key

definition joinUser :: "database \<Rightarrow> user \<Rightarrow> loaded_user option" where
  "joinUser db u =
     Option.bind (defaultWalletId u) (\<lambda>dwid.
     Option.bind (find (\<lambda>w. wallet_id w = dwid) (wallets db)) (\<lambda>dw.
     Option.bind (find (\<lambda>k. key_id k = keyId dw) (keys db)) (\<lambda>k.
       Some \<lparr>user_row = u, user_defaultWallet = dw, user_key = k\<rparr>)))"

text \<open>
  \<open>getUser\<close> of the order utilities. The columns \<open>selectedInputAmount\<close> and
  \<open>selectedOrderDirection\<close> are not nullable, so their two checks cannot fire.
\<close>

definition getUser :: "database \<Rightarrow> string \<Rightarrow> error + loaded_user" where
  "getUser db tid =
     (case find (\<lambda>u. telegramId u = tid \<and> joinUser db u \<noteq> None) (users db) of
        None \<Rightarrow> Inl UserNotFound
      | Some u \<Rightarrow>
          (case joinUser db u of
             None \<Rightarrow> Inl NoDefaultWallet
           | Some lu \<Rightarrow>
               if selectedSellPercent u = 0 then Inl SellPercentNotSet
               else if unset (selectedPoolAddress u) then Inl PoolAddressNotSet
               else if unset (selectedInputMint u) then Inl InputMintNotSet
               else if unset (selectedOutputMint u) then Inl OutputMintNotSet
               else if selectedEstimatedOutput u = None then Inl EstimatedOutputNotSet
               else if (selectedOrderDirection u = Buy \<and>
                          (selectedInputMint u = Some NATIVE_MINT \<or>
                           selectedInputMint u = Some NATIVE_MINT_2022)) \<or>
                       (selectedOrderDirection u = Sell \<and>
                          (selectedOutputMint u = Some NATIVE_MINT \<or>
                           selectedOutputMint u = Some NATIVE_MINT_2022))
               then Inr lu
               else Inl SelectionNotSetCorrectly))"

text \<open>
  BigNumber's \<open>div\<close> under the library's defaults: the quotient is rounded to 20
  decimal places, half away from zero (DECIMAL_PLACES 20, ROUND_HALF_UP).
\<close>

definition round_half_up :: "rat \<Rightarrow> int" where
  "round_half_up x = (if 0 \<le> x then \<lfloor>x + 1 / 2\<rfloor> else - \<lfloor>- x + 1 / 2\<rfloor>)"

definition BigNumber_div :: "rat \<Rightarrow> rat \<Rightarrow> rat" where
  "BigNumber_div x y = of_int (round_half_up (x / y * 10 ^ 20)) / 10 ^ 20"

text \<open>A confirmed balance in minor units, scaled to units of the asset.\<close>

definition scaledBalance :: "int \<Rightarrow> nat \<Rightarrow> rat" where
  "scaledBalance balance decimals = BigNumber_div (of_int balance) (10 ^ decimals)"

text \<open>
  \<open>getWalletBalance\<close> of the user utilities: the user's wallet of a mint, compared in
  lower case, with its confirmed balance scaled by the token's \<open>unitDecimals\<close>.
\<close>

definition getWalletBalance :: "database \<Rightarrow> nat \<Rightarrow> string \<Rightarrow> error + wallet \<times> rat" where
  "getWalletBalance db userId inputMint =
     (case List.find
             (\<lambda>(w, t). wallet_userId w = userId \<and>
                        toLowerCase (contractAddress t) = toLowerCase inputMint)
             (List.concat (map (\<lambda>w. map (\<lambda>t. (w, t))
                (filter (\<lambda>t. token_id t = tokenId w) (tokens db))) (wallets db))) of
        None \<Rightarrow> Inl WalletNotFound
      | Some (w, t) \<Rightarrow> Inr (w, scaledBalance (confirmedBalance w) (unitDecimals t)))"

text \<open>A nullable text passed on after its check (\<open>user.selectedInputMint!\<close>).\<close>

definition mintText :: "string option \<Rightarrow> string" where
  "mintText x = (case x of None \<Rightarrow> [] | Some t \<Rightarrow> t)"

text \<open>
  The balance check of \<open>create\<close>: the default wallet's confirmed balance scaled by
  \<open>selectedInputDecimals\<close>; for a sell, the balance of the wallet of the input mint
  instead, which \<open>getWalletBalance\<close> has scaled.
\<close>

definition inputWalletBalance :: "database \<Rightarrow> loaded_user \<Rightarrow> error + rat" where
  "inputWalletBalance db lu =
     (if selectedOrderDirection (user_row lu) = Sell
      then (case getWalletBalance db (user_id (user_row lu))
                   (mintText (selectedInputMint (user_row lu))) of
              Inl er \<Rightarrow> Inl er
            | Inr (w, b) \<Rightarrow> Inr b)
      else Inr (scaledBalance (confirmedBalance (user_defaultWallet lu))
                  (selectedInputDecimals (user_row lu))))"

definition hasEnoughBalance :: "user \<Rightarrow> rat \<Rightarrow> bool" where
  "hasEnoughBalance u balance =
     (\<not> ((selectedOrderDirection u = Buy \<and> selectedInputAmount u > balance) \<or>
         (selectedOrderDirection u = Sell \<and> selectedSellAmount u > balance)))"

text \<open>
  The selection fields of the user as \<open>transactionalCreateOrderAndSendToNetwork\<close>
  leaves them: the signature is stored and every other selection is back at its default.
\<close>

definition resetSelection :: "user \<Rightarrow> string \<Rightarrow> user" where
  "resetSelection u sig =
     u\<lparr>selectedTransactionId := sig,
       selectedOrderDirection := Buy,
       selectedOrderType := Swap,
       selectedPoolAddress := None,
       selectedInputMint := None,
       selectedOutputMint := None,
       selectedEstimatedOutput := None,
       selectedInputDecimals := 0,
       selectedOutputDecimals := 0,
       selectedPriceImpact := 0,
       selectedSellAmount := 0,
       selectedTokenUsdPrice := 0,
       selectedDCAInAmount := 0,
       selectedDCAInAmountPerCycle := 0,
       selectedDCACycleSecondsApart := 0\<rparr>"

text \<open>\<open>user.save\<close>: the row of the user's id takes the fields of the instance.\<close>

definition User_save :: "user \<Rightarrow> user list \<Rightarrow> user list" where
  "User_save u us = map (\<lambda>r. if user_id r = user_id u then u else r) us"

text \<open>
  The reads of \<open>transactionalCreateOrderAndSendToNetwork\<close>. The user is read with
  the default wallet and its key under \<open>lock\<close> and \<open>skipLocked\<close>: a row that
  another transaction holds is not seen. So is the input wallet, with its token; the
  market is read with its quote token, the output wallet by its address alone.
\<close>

definition findUserForUpdate :: "env \<Rightarrow> database \<Rightarrow> nat \<Rightarrow> loaded_user option" where
  "findUserForUpdate e db userId =
     Option.bind
       (find (\<lambda>u. user_id u = userId \<and> user_id u \<notin> set (lockedUserIds e) \<and>
                  (case joinUser db u of
                     None \<Rightarrow> False
                   | Some lu \<Rightarrow>
                       wallet_id (user_defaultWallet lu) \<notin> set (lockedWalletIds e)))
          (users db))
       (joinUser db)"

definition findMarket :: "database \<Rightarrow> string \<Rightarrow> market option" where
  "findMarket db pool =
     find (\<lambda>m. poolAddress m = pool \<and>
                find (\<lambda>t. token_id t = quoteTokenId m) (tokens db) \<noteq> None)
       (markets db)"

definition findInputWalletForUpdate :: "env \<Rightarrow> database \<Rightarrow> string \<Rightarrow> wallet option" where
  "findInputWalletForUpdate e db addr =
     find (\<lambda>w. address w = addr \<and>
                find (\<lambda>t. token_id t = tokenId w) (tokens db) \<noteq> None \<and>
                wallet_id w \<notin> set (lockedWalletIds e))
       (wallets db)"

text \<open>
  The address of the wallet of a side of the swap: the associated token account, or the
  default wallet's own address when the mint is wrapped SOL.
\<close>

definition walletAddress :: "string option \<Rightarrow> string \<Rightarrow> loaded_user \<Rightarrow> string" where
  "walletAddress selectedMint ata lu =
     (if selectedMint \<noteq> Some ''So11111111111111111111111111111111111111112''
      then ata else address (user_defaultWallet lu))"

text \<open>
  The wallet created for an output asset the user receives for the first time: it holds
  the market's base token when the input wallet holds the quote token, and the quote
  token otherwise.
\<close>

definition newOutputWallet :: "database \<Rightarrow> loaded_user \<Rightarrow> market \<Rightarrow> wallet \<Rightarrow> string \<Rightarrow> wallet" where
  "newOutputWallet db lu mkt inputWallet' outputWalletAddr =
     \<lparr>wallet_id = next_id (map wallet_id (wallets db)),
      wallet_userId = user_id (user_row lu),
      parentId = defaultWalletId (user_row lu),
      tokenId =
        (if map_option contractAddress
              (find (\<lambda>t. token_id t = tokenId inputWallet') (tokens db))
            = map_option contractAddress
                (find (\<lambda>t. token_id t = quoteTokenId mkt) (tokens db))
         then baseTokenId mkt else quoteTokenId mkt),
      keyId = key_id (user_key lu),
      address = outputWalletAddr,
      confirmedBalance = 0,
      unconfirmedBalance = 0,
      wallet_status = Active\<rparr>"

text \<open>
  The output wallet: the wallet of the output address, or a wallet created for it. The
  second component lists the wallet created, if any.
\<close>

definition findOrCreateOutputWallet ::
  "database \<Rightarrow> loaded_user \<Rightarrow> market \<Rightarrow> wallet \<Rightarrow> string \<Rightarrow> wallet \<times> wallet list" where
  "findOrCreateOutputWallet db lu mkt inputWallet' outputWalletAddr =
     (case find (\<lambda>w. address w = outputWalletAddr) (wallets db) of
        Some ow \<Rightarrow> (ow, [])
      | None \<Rightarrow>
          (newOutputWallet db lu mkt inputWallet' outputWalletAddr,
           [newOutputWallet db lu mkt inputWallet' outputWalletAddr]))"

text \<open>
  The values of \<open>Order.create\<close>. The instance \<open>user\<close> is read here after the
  assignments that reset its selection, \<open>orderType\<close> and \<open>orderDirection\<close> among them.
\<close>

definition newOrder ::
  "database \<Rightarrow> user \<Rightarrow> market \<Rightarrow> wallet \<Rightarrow> wallet \<Rightarrow> string \<Rightarrow> int \<Rightarrow> rat \<Rightarrow> int \<Rightarrow> nat
     \<Rightarrow> block_hash \<Rightarrow> string option \<Rightarrow> string option \<Rightarrow> order" where
  "newOrder db resetUser mkt inputWallet' outputWallet' sig rawAmount amountInUsd ourFee
       priorityFee' recentBlockhash' limitOrder' dcaPubKey' =
     \<lparr>order_id = next_id (map order_id (orders db)),
      order_userId = user_id resetUser,
      marketId = market_id mkt,
      inputWalletId = wallet_id inputWallet',
      outputWalletId = wallet_id outputWallet',
      transactionId = sig,
      inAmount = rawAmount,
      inAmountInUsd = amountInUsd,
      outAmount = None,
      commission = ourFee,
      networkFee = 0,
      orderType = selectedOrderType resetUser,
      orderDirection = selectedOrderDirection resetUser,
      limitOrder = limitOrder',
      dcaPubKey = dcaPubKey',
      succeeded = False,
      status = Submitted,
      details = Some \<lparr>recentBlockHash = Some recentBlockhash', priorityFee = priorityFee'\<rparr>\<rparr>"

text \<open>The reservation: \<open>confirmed_balance - amount\<close>, \<open>unconfirmed_balance + amount\<close>.\<close>

definition reserve :: "int \<Rightarrow> wallet \<Rightarrow> wallet" where
  "reserve rawAmount w =
     w\<lparr>confirmedBalance := confirmedBalance w - rawAmount,
       unconfirmedBalance := unconfirmedBalance w + rawAmount\<rparr>"

text \<open>
  The callback of the managed transaction in
  \<open>transactionalCreateOrderAndSendToNetwork\<close>. It returns the database as the open
  transaction sees it and the signature that \<open>txExecutor.execute\<close> returned, or the
  exception, with the events so far. The Order model validates the amounts with
  \<open>min: 0\<close> and declares \<open>transactionId\<close> unique, so the insert of a negative amount
  or of a signature already stored fails. The 30 second delay is left out.
\<close>

definition createOrderAndSend ::
  "env \<Rightarrow> database \<Rightarrow> nat \<Rightarrow> string \<Rightarrow> string \<Rightarrow> string \<Rightarrow> int \<Rightarrow> rat \<Rightarrow> int \<Rightarrow> nat
     \<Rightarrow> block_hash \<Rightarrow> string option \<Rightarrow> string option
     \<Rightarrow> (error + database \<times> string) \<times> event list" where
  "createOrderAndSend e db userId sig inputATA' outputATA' rawAmount amountInUsd
       ourFee priorityFee' recentBlockhash' limitOrder' dcaPubKey' =
     (case findUserForUpdate e db userId of
        None \<Rightarrow> (Inl UserNotFound, [])
      | Some lu \<Rightarrow>
     if unset (selectedPoolAddress (user_row lu)) then (Inl PoolAddressNotSet, [])
     else
     (let inputWalletAddr = walletAddress (selectedInputMint (user_row lu)) inputATA' lu;
          outputWalletAddr = walletAddress (selectedOutputMint (user_row lu)) outputATA' lu
      in
     (case findMarket db (mintText (selectedPoolAddress (user_row lu))) of
        None \<Rightarrow> (Inl MarketNotFound, [])
      | Some mkt \<Rightarrow>
     (case findInputWalletForUpdate e db inputWalletAddr of
        None \<Rightarrow> (Inl WalletTransactionOngoing, [])
      | Some inputWallet' \<Rightarrow>
     (let outputWallet' =
            fst (findOrCreateOutputWallet db lu mkt inputWallet' outputWalletAddr);
          created = snd (findOrCreateOutputWallet db lu mkt inputWallet' outputWalletAddr);
          tr1 = map (\<lambda>w. DbWrite WalletsTable) created;
          resetUser = resetSelection (user_row lu) sig
      in
     if rawAmount < 0 \<or> amountInUsd < 0 \<or> ourFee < 0
     then (Inl OrderValidationFailed, tr1 @ [DbWrite UsersTable, DbWrite WalletsTable])
     else if find (\<lambda>r. transactionId r = sig) (orders db) \<noteq> None
     then (Inl DuplicateTransactionId,
           tr1 @ [DbWrite UsersTable, DbWrite OrdersTable, DbWrite WalletsTable])
     else
     (case sendRawTransaction e sig of
        None \<Rightarrow>
          (Inl SendFailed,
           tr1 @ [DbWrite UsersTable, DbWrite OrdersTable, DbWrite WalletsTable,
                  SendRawTransaction sig])
      | Some sent \<Rightarrow>
          (Inr (db\<lparr>users := User_save resetUser (users db),
                   orders := orders db @
                     [newOrder db resetUser mkt inputWallet' outputWallet' sig rawAmount
                        amountInUsd ourFee priorityFee' recentBlockhash' limitOrder' dcaPubKey'],
                   wallets := Wallet_update (reserve rawAmount) (wallet_id inputWallet')
                     (wallets db @ created)\<rparr>, sent),
           tr1 @ [DbWrite UsersTable, DbWrite OrdersTable, DbWrite WalletsTable,
                  SendRawTransaction sig])))))))"

text \<open>
  \<open>transactionalCreateOrderAndSendToNetwork\<close>: \<open>db.sequelize.transaction\<close> begins a
  transaction, runs the callback, commits when it returns and rolls back when it throws.
\<close>

definition transactionalCreateOrderAndSendToNetwork ::
  "env \<Rightarrow> database \<Rightarrow> nat \<Rightarrow> string \<Rightarrow> string \<Rightarrow> string \<Rightarrow> int \<Rightarrow> rat \<Rightarrow> int \<Rightarrow> nat
     \<Rightarrow> block_hash \<Rightarrow> string option \<Rightarrow> string option \<Rightarrow> (error + string) outcome" where
  "transactionalCreateOrderAndSendToNetwork e db userId sig inputATA' outputATA' rawAmount
       amountInUsd ourFee priorityFee' recentBlockhash' limitOrder' dcaPubKey' =
     (case createOrderAndSend e db userId sig inputATA' outputATA' rawAmount amountInUsd
             ourFee priorityFee' recentBlockhash' limitOrder' dcaPubKey' of
        (Inl er, tr) \<Rightarrow>
          \<lparr>db_after = db, trace = TxBegin # tr @ [TxRollback], result = Inl er\<rparr>
      | (Inr (db', sent), tr) \<Rightarrow>
          \<lparr>db_after = db', trace = TxBegin # tr @ [TxCommit], result = Inr sent\<rparr>)"

text \<open>
  \<open>create\<close>, the handler of a swap order, up to the response: the reads that prepare
  the response for the UI follow the submission and write nothing.
\<close>

definition create :: "env \<Rightarrow> database \<Rightarrow> string \<Rightarrow> (error + string) outcome" where
  "create e db tid =
     (case getUser db tid of
        Inl er \<Rightarrow> \<lparr>db_after = db, trace = [], result = Inl er\<rparr>
      | Inr lu \<Rightarrow>
     (case inputWalletBalance db lu of
        Inl er \<Rightarrow> \<lparr>db_after = db, trace = [], result = Inl er\<rparr>
      | Inr balance \<Rightarrow>
     if \<not> hasEnoughBalance (user_row lu) balance
     then \<lparr>db_after = db, trace = [], result = Inl InsufficientBalance\<rparr>
     else
     (case (if selectedOrderDirection (user_row lu) = Buy then solPriceUsd e
            else Some (selectedTokenUsdPrice (user_row lu))) of
        None \<Rightarrow> \<lparr>db_after = db, trace = [], result = Inl PriceUnavailable\<rparr>
      | Some tokenUsdPrice \<Rightarrow>
     (case createSwapTransaction e (user_row lu)
             (if selectedOrderDirection (user_row lu) = Buy
              then selectedInputAmount (user_row lu) else selectedSellAmount (user_row lu))
             tokenUsdPrice (priorityFeeHigh e) of
        None \<Rightarrow> \<lparr>db_after = db, trace = [], result = Inl BuilderFailed\<rparr>
      | Some tx \<Rightarrow>
          transactionalCreateOrderAndSendToNetwork e db (user_id (user_row lu))
            (signature tx) (inputATA tx) (outputATA tx) (rawInAmount tx)
            (swapInAmountInUsd tx) (ourFeeInLamports tx) (priorityFeeHigh e)
            (currentBlockhash e) None None))))"

section \<open>The operations on the store\<close>

text \<open>
  The operations that write orders: a submission (directly, or through the handler
  \<open>create\<close>), a run of \<open>checkConfirmation\<close> on an order, and a firing of the cron
  job. A state is reachable when these operations lead to it from a store without
  orders.
\<close>

inductive step :: "database \<Rightarrow> database \<Rightarrow> bool" where
  submit: "step db (db_after (transactionalCreateOrderAndSendToNetwork e db userId sig
             inputATA' outputATA' rawAmount amountInUsd ourFee priorityFee' recentBlockhash'
             limitOrder' dcaPubKey'))"
| request: "step db (db_after (create e db tid))"
| settle: "step db (db_after (checkConfirmation e db orderId))"
| pass: "step db (db_after (start e db))"

inductive reachable :: "database \<Rightarrow> bool" where
  initial: "orders db = [] \<Longrightarrow> reachable db"
| later: "reachable db \<Longrightarrow> step db db' \<Longrightarrow> reachable db'"

text \<open>
  What an operation may do to a stored order: leave its status, or move it from
  submitted to confirmed or to failed. The id stays.
\<close>

definition status_step :: "order \<Rightarrow> order \<Rightarrow> bool" where
  "status_step r r' =
     (order_id r' = order_id r \<and>
      (status r' = status r \<or>
       status r = Submitted \<and> (status r' = Confirmed \<or> status r' = Failed)))"

text \<open>
  The invariant of the orders table that the operations keep: the ids are distinct (the
  primary key) and every status is submitted, confirmed or failed.
\<close>

definition orders_inv :: "order list \<Rightarrow> bool" where
  "orders_inv os =
     (distinct (map order_id os) \<and>
      list_all (\<lambda>r. status r = Submitted \<or> status r = Confirmed \<or> status r = Failed) os)"

text \<open>
  The orders table after a run of the settlement on the order of an id: untouched, or
  with the order saved as failed, or with the order saved as confirmed.
\<close>

definition orders_saved :: "order list \<Rightarrow> nat \<Rightarrow> order list \<Rightarrow> bool" where
  "orders_saved os i os' =
     (os' = os \<or> (\<exists>f. os' = Order_save_failed i f os) \<or>
      (\<exists>out f. os' = Order_save_confirmed i out f os))"

section \<open>Scenarios\<close>

text \<open>
  The data of the scenarios: one user whose default wallet holds SOL and has no parent,
  a wallet of the base token whose parent is the default wallet, and one market.
\<close>

definition scenario_sol_token :: token where
  "scenario_sol_token = \<lparr>token_id = 1, contractAddress = NATIVE_MINT, unitDecimals = 9\<rparr>"

definition scenario_base_token :: token where
  "scenario_base_token = \<lparr>token_id = 2, contractAddress = ''BaseMint'', unitDecimals = 6\<rparr>"

definition scenario_key :: key where
  "scenario_key = \<lparr>key_id = 1, privateKey = ''secret''\<rparr>"

definition scenario_sol_wallet :: wallet where
  "scenario_sol_wallet =
     \<lparr>wallet_id = 1, wallet_userId = 1, parentId = None, tokenId = 1, keyId = 1,
      address = ''OwnerAddress'', confirmedBalance = 1000000, unconfirmedBalance = 0,
      wallet_status = Active\<rparr>"

definition scenario_base_wallet :: wallet where
  "scenario_base_wallet =
     \<lparr>wallet_id = 2, wallet_userId = 1, parentId = Some 1, tokenId = 2, keyId = 1,
      address = ''OwnerBaseATA'', confirmedBalance = 0, unconfirmedBalance = 0,
      wallet_status = Active\<rparr>"

definition scenario_market :: market where
  "scenario_market = \<lparr>market_id = 1, poolAddress = ''Pool'', baseTokenId = 2, quoteTokenId = 1\<rparr>"

definition scenario_user :: user where
  "scenario_user =
     \<lparr>user_id = 1, telegramId = ''42'', defaultWalletId = Some 1,
      selectedTransactionId = ''0'', selectedOrderDirection = Buy, selectedOrderType = Swap,
      selectedPoolAddress = Some ''Pool'', selectedInputMint = Some NATIVE_MINT,
      selectedOutputMint = Some ''BaseMint'', selectedInputAmount = 4 / 10000,
      selectedInputDecimals = 9, selectedEstimatedOutput = Some (25 / 100000),
      selectedOutputDecimals = 6, selectedPriceImpact = 0, selectedSellPercent = 100,
      selectedSellAmount = 0, selectedTokenUsdPrice = 0, selectedSlippage = 1500,
      selectedDCAInAmount = 0, selectedDCAInAmountPerCycle = 0,
      selectedDCACycleSecondsApart = 0\<rparr>"

definition scenario_db :: database where
  "scenario_db =
     \<lparr>users = [scenario_user], wallets = [scenario_sol_wallet, scenario_base_wallet],
      orders = [], pnls = [], tokens = [scenario_sol_token, scenario_base_token],
      markets = [scenario_market], keys = [scenario_key]\<rparr>"

definition scenario_blockhash :: block_hash where
  "scenario_blockhash = \<lparr>blockhash = ''Blockhash'', lastValidBlockHeight = 1000\<rparr>"

text \<open>A buy of 400,000 lamports, as submitted (Scenario A).\<close>

definition scenario_buy_row :: order where
  "scenario_buy_row =
     \<lparr>order_id = 1, order_userId = 1, marketId = 1, inputWalletId = 1, outputWalletId = 2,
      transactionId = ''Sig1'', inAmount = 400000, inAmountInUsd = 6 / 100, outAmount = None,
      commission = 2000, networkFee = 0, orderType = Swap, orderDirection = Buy,
      limitOrder = None, dcaPubKey = None, succeeded = False, status = Submitted,
      details = Some \<lparr>recentBlockHash = Some scenario_blockhash, priorityFee = 10\<rparr>\<rparr>"

definition scenario_buy_db :: database where
  "scenario_buy_db =
     scenario_db\<lparr>wallets := [scenario_sol_wallet\<lparr>confirmedBalance := 600000,
                                                   unconfirmedBalance := 400000\<rparr>,
                                scenario_base_wallet],
                 orders := [scenario_buy_row]\<rparr>"

text \<open>
  The answers of the node. In \<open>scenario_landed\<close> the buy landed: the owner paid
  400,000 lamports to the pool, 2,000 to the fee account and 5,000 as network fee, and
  received 250 units of the base token. In \<open>scenario_reverted\<close> the transaction landed
  with an execution error and a fee of 5,000.
\<close>

definition scenario_landed :: parsed_transaction where
  "scenario_landed =
     \<lparr>meta = Some \<lparr>err = False, fee = 5000,
                    preBalances = [1000000, 0, 0], postBalances = [593000, 400000, 2000],
                    preTokenBalances = Some [],
                    postTokenBalances =
                      Some [\<lparr>mint = ''BaseMint'', owner = Some ''OwnerAddress'', amount = 250\<rparr>]\<rparr>,
      accountKeys = [''OwnerAddress'', ''PoolVault'', ''FeeAccount'']\<rparr>"

definition scenario_reverted :: parsed_transaction where
  "scenario_reverted =
     \<lparr>meta = Some \<lparr>err = True, fee = 5000,
                    preBalances = [1000000], postBalances = [995000],
                    preTokenBalances = Some [], postTokenBalances = Some []\<rparr>,
      accountKeys = [''OwnerAddress'']\<rparr>"

definition scenario_env :: env where
  "scenario_env =
     \<lparr>confirmTransaction = (\<lambda>s. ConfirmationReturned),
      getParsedTransaction = (\<lambda>s. Some scenario_landed),
      sendRawTransaction = (\<lambda>s. Some s),
      solPriceUsd = Some 150,
      lockedUserIds = [], lockedWalletIds = [], lockedOrderIds = [],
      webhookReachable = True,
      createSwapTransaction = (\<lambda>u a p f. Some
        \<lparr>signature = ''Sig1'', inputATA = ''OwnerWsolATA'', outputATA = ''OwnerBaseATA'',
         rawInAmount = 400000, swapInAmountInUsd = 6 / 100, ourFeeInLamports = 2000\<rparr>),
      priorityFeeHigh = 10, currentBlockhash = scenario_blockhash\<rparr>"

definition scenario_reverted_env :: env where
  "scenario_reverted_env =
     scenario_env\<lparr>getParsedTransaction := (\<lambda>s. Some scenario_reverted)\<rparr>"

text \<open>
  Scenario A: the submission of the buy, with what the builder returned, and the same
  submission when the node refuses the transaction.
\<close>

definition scenario_submission :: "(error + string) outcome" where
  "scenario_submission =
     transactionalCreateOrderAndSendToNetwork scenario_env scenario_db 1 ''Sig1''
       ''OwnerWsolATA'' ''OwnerBaseATA'' 400000 (6 / 100) 2000 10 scenario_blockhash None None"

definition scenario_refused_submission :: "(error + string) outcome" where
  "scenario_refused_submission =
     transactionalCreateOrderAndSendToNetwork
       (scenario_env\<lparr>sendRawTransaction := (\<lambda>s. None)\<rparr>) scenario_db 1 ''Sig1''
       ''OwnerWsolATA'' ''OwnerBaseATA'' 400000 (6 / 100) 2000 10 scenario_blockhash None None"

text \<open>
  A user who has selected a sell of 0.4 units of the base token (400,000 in minor
  units) for SOL, and holds that much.
\<close>

definition scenario_sell_user :: user where
  "scenario_sell_user =
     scenario_user\<lparr>selectedOrderDirection := Sell, selectedInputMint := Some ''BaseMint'',
                   selectedOutputMint := Some NATIVE_MINT, selectedSellAmount := 4 / 10,
                   selectedInputDecimals := 6, selectedOutputDecimals := 9,
                   selectedTokenUsdPrice := 15 / 100\<rparr>"

definition scenario_sell_selection_db :: database where
  "scenario_sell_selection_db =
     scenario_db\<lparr>users := [scenario_sell_user],
                 wallets := [scenario_sol_wallet,
                             scenario_base_wallet\<lparr>confirmedBalance := 400000\<rparr>]\<rparr>"

definition scenario_sell_env :: env where
  "scenario_sell_env =
     scenario_env\<lparr>createSwapTransaction := (\<lambda>u a p f. Some
        \<lparr>signature = ''Sig2'', inputATA = ''OwnerBaseATA'', outputATA = ''OwnerWsolATA'',
         rawInAmount = 400000, swapInAmountInUsd = 6 / 100, ourFeeInLamports = 2000\<rparr>)\<rparr>"

text \<open>
  The buy of Scenario A as \<open>getOrderById\<close> loads it, and a node that reports the
  blockhash expired and does not know the transaction.
\<close>

definition scenario_buy_loaded :: loaded_order where
  "scenario_buy_loaded =
     \<lparr>row = scenario_buy_row, order_user = scenario_user,
      order_defaultWallet = scenario_sol_wallet\<lparr>confirmedBalance := 600000,
                                                  unconfirmedBalance := 400000\<rparr>,
      inputWallet = scenario_sol_wallet\<lparr>confirmedBalance := 600000,
                                          unconfirmedBalance := 400000\<rparr>,
      inputToken = scenario_sol_token,
      outputWallet = scenario_base_wallet, outputToken = scenario_base_token\<rparr>"

definition scenario_expired_env :: env where
  "scenario_expired_env =
     scenario_env\<lparr>confirmTransaction := (\<lambda>s. BlockheightExceeded),
                  getParsedTransaction := (\<lambda>s. None)\<rparr>"

text \<open>A node that reports the blockhash expired and finds the landed transaction.\<close>

definition scenario_expired_landed_env :: env where
  "scenario_expired_landed_env =
     scenario_env\<lparr>confirmTransaction := (\<lambda>s. BlockheightExceeded)\<rparr>"

text \<open>
  Scenario D: an open position of the base wallet with 100 bought and 60 sold, and an
  order of direction sell that sells 40.
\<close>

definition scenario_position :: pnl where
  "scenario_position =
     \<lparr>pnl_id = 1, pnl_walletId = 2, cumulativeBuyQuantity = 100,
      cumulativeBuyCostInUsd = 6 / 100, cumulativeBuyCostInSol = 400000,
      cumulativeSellQuantity = 60, cumulativeSellProceedsInUsd = 3 / 100,
      cumulativeSellProceedsInSol = 200000, isClosed = False\<rparr>"

definition scenario_sell_loaded :: loaded_order where
  "scenario_sell_loaded =
     \<lparr>row = scenario_buy_row\<lparr>order_id := 2, inputWalletId := 2, outputWalletId := 1,
                             transactionId := ''Sig2'', orderDirection := Sell,
                             inAmount := 40\<rparr>,
      order_user = scenario_user,
      order_defaultWallet = scenario_sol_wallet,
      inputWallet = scenario_base_wallet\<lparr>confirmedBalance := 0, unconfirmedBalance := 40\<rparr>,
      inputToken = scenario_base_token,
      outputWallet = scenario_sol_wallet, outputToken = scenario_sol_token\<rparr>"



text \<open>A store in which the order of Scenario B has been settled as confirmed.\<close>

definition scenario_settled_row :: order where
  "scenario_settled_row =
     scenario_buy_row\<lparr>outAmount := Some 250, networkFee := 5000, succeeded := True,
                      status := Confirmed\<rparr>"

definition scenario_settled_db :: database where
  "scenario_settled_db =
     scenario_db\<lparr>wallets := [scenario_sol_wallet\<lparr>confirmedBalance := 593000\<rparr>,
                                scenario_base_wallet\<lparr>confirmedBalance := 250\<rparr>],
                 orders := [scenario_settled_row]\<rparr>"

text \<open>
  The submission of the sell that \<open>scenario_sell_user\<close> has selected, through the
  handler \<open>create\<close>. The base-token wallet 2, whose parent is the default wallet 1, is
  the input wallet of the order it persists.
\<close>

definition scenario_sell_submission :: "(error + string) outcome" where
  "scenario_sell_submission = create scenario_sell_env scenario_sell_selection_db ''42''"

text \<open>
  The position of Scenario D after the sell of 40, and the position that the buy of
  Scenario B opens.
\<close>

definition scenario_sold_position :: pnl where
  "scenario_sold_position =
     scenario_position\<lparr>cumulativeSellQuantity := 100,
                       cumulativeSellProceedsInUsd := 237 / 4000,
                       cumulativeSellProceedsInSol := 395000\<rparr>"

definition scenario_opened_position :: pnl where
  "scenario_opened_position =
     \<lparr>pnl_id = 1, pnl_walletId = 2, cumulativeBuyQuantity = 250,
      cumulativeBuyCostInUsd = 6 / 100, cumulativeBuyCostInSol = 400000,
      cumulativeSellQuantity = 0, cumulativeSellProceedsInUsd = 0,
      cumulativeSellProceedsInSol = 0, isClosed = False\<rparr>"

section \<open>Properties\<close>

lemmas scenario_defs =
  scenario_sol_token_def scenario_base_token_def scenario_key_def scenario_sol_wallet_def
  scenario_base_wallet_def scenario_market_def scenario_user_def scenario_db_def
  scenario_blockhash_def scenario_buy_row_def scenario_buy_db_def scenario_landed_def
  scenario_env_def scenario_submission_def NATIVE_MINT_def NATIVE_MINT_2022_def

lemmas submission_defs =
  create_def getUser_def joinUser_def unset_def mintText_def inputWalletBalance_def
  getWalletBalance_def scaledBalance_def BigNumber_div_def round_half_up_def
  hasEnoughBalance_def transactionalCreateOrderAndSendToNetwork_def createOrderAndSend_def
  findUserForUpdate_def findMarket_def findInputWalletForUpdate_def walletAddress_def
  findOrCreateOutputWallet_def newOutputWallet_def newOrder_def reserve_def resetSelection_def
  User_save_def Wallet_update_def toLowerCase_def next_id_def

lemmas settlement_defs =
  checkConfirmation_def getOrderById_def hasBlockhash_def settleParsedTransaction_def
  handleTransactionFailure_def updateOrderWalletPnL_def updateOrCreatePnL_def
  updateWalletBalances_def Wallet_update_def Order_save_failed_def Order_save_confirmed_def
  PnL_findOne_open_def PnL_update_def feeWalletId_def calculateBaseTokenChanges_def
  calculateQuoteTokenBalanceChange_def calculateTransactionFee_def BN_of_number_def
  balanceMatches_def toLowerCase_def next_id_def

subsection \<open>Settlement on the balance ledger\<close>

text \<open>
  Scenario B on the whole path: the buy of Scenario A is found landed without error.
  The reservation of 400,000 is released, the default wallet, which pays the fees, is
  debited 2,000 + 5,000, and the output wallet is credited 250.
\<close>

lemma scenario_B_balances:
  "map (\<lambda>w. (wallet_id w, confirmedBalance w, unconfirmedBalance w))
       (wallets (db_after (checkConfirmation scenario_env scenario_buy_db 1))) =
     [(1, 593000, 0), (2, 250, 0)]"
  by (simp add: scenario_defs settlement_defs Let_def)

subsection \<open>Order submission\<close>

lemma next_id_fresh: "x \<in> set ids \<Longrightarrow> x < next_id ids"
proof -
  assume "x \<in> set ids"
  then have "x \<le> Max (set (0 # ids))" by (intro Max_ge) auto
  moreover have "fold max ids 0 = Max (set (0 # ids))" by (rule Max.set_eq_fold[symmetric])
  ultimately show ?thesis by (simp add: next_id_def)
qed

lemma find_Some_mem: "find P xs = Some x \<Longrightarrow> x \<in> set xs \<and> P x"
  by (auto simp: find_Some_iff)

lemma newOrder_fields:
  "status (newOrder db ru mkt iw ow sig a usd f pf bh lo dca) = Submitted"
  "inAmount (newOrder db ru mkt iw ow sig a usd f pf bh lo dca) = a"
  "inputWalletId (newOrder db ru mkt iw ow sig a usd f pf bh lo dca) = wallet_id iw"
  "outputWalletId (newOrder db ru mkt iw ow sig a usd f pf bh lo dca) = wallet_id ow"
  "orderDirection (newOrder db ru mkt iw ow sig a usd f pf bh lo dca) = selectedOrderDirection ru"
  "orderType (newOrder db ru mkt iw ow sig a usd f pf bh lo dca) = selectedOrderType ru"
  "order_id (newOrder db ru mkt iw ow sig a usd f pf bh lo dca) = next_id (map order_id (orders db))"
  "transactionId (newOrder db ru mkt iw ow sig a usd f pf bh lo dca) = sig"
  by (simp_all add: newOrder_def)

lemma resetSelection_fields:
  "selectedOrderDirection (resetSelection u sig) = Buy"
  "selectedOrderType (resetSelection u sig) = Swap"
  "user_id (resetSelection u sig) = user_id u"
  by (simp_all add: resetSelection_def)

lemma findInputWalletForUpdate_mem:
  "findInputWalletForUpdate e db addr = Some w \<Longrightarrow> w \<in> set (wallets db) \<and> address w = addr"
  by (auto simp: findInputWalletForUpdate_def dest!: find_Some_mem)

lemma take_Wallet_update_append:
  "take (length ws) (Wallet_update f i (ws @ created)) = Wallet_update f i ws"
  by (simp add: Wallet_update_def)

lemma Wallet_update_length: "length (Wallet_update f i ws) = length ws"
  by (simp add: Wallet_update_def)

text \<open>What a submission that went through has written.\<close>

lemma createOrderAndSend_Inr:
  assumes "createOrderAndSend e db userId sig inputATA' outputATA' rawAmount amountInUsd
             ourFee priorityFee' recentBlockhash' limitOrder' dcaPubKey' = (Inr (db', sent), tr)"
  shows "\<exists>ord.
           orders db' = orders db @ [ord] \<and>
           (\<exists>iw \<in> set (wallets db). wallet_id iw = inputWalletId ord) \<and>
           status ord = Submitted \<and> inAmount ord = rawAmount \<and>
           orderDirection ord = Buy \<and> orderType ord = Swap \<and>
           order_id ord = next_id (map order_id (orders db)) \<and>
           take (length (wallets db)) (wallets db') =
             Wallet_update (reserve rawAmount) (inputWalletId ord) (wallets db)"
  using assms
  unfolding createOrderAndSend_def Let_def
  by (auto simp: newOrder_fields resetSelection_fields take_Wallet_update_append
      Wallet_update_length split: option.splits if_splits dest!: findInputWalletForUpdate_mem)

text \<open>
  Claim C1 at a sell. The user has selected a sell; the submission goes through; the
  Order row it persists moves the base token from wallet 2 to wallet 1 and has the
  direction buy. The coordinator resets \<open>user.selectedOrderDirection\<close> before
  \<open>Order.create\<close> reads it.
\<close>

theorem sell_recorded_as_buy:
  "map selectedOrderDirection (users scenario_sell_selection_db) = [Sell] \<and>
   result (create scenario_sell_env scenario_sell_selection_db ''42'') = Inr ''Sig2'' \<and>
   map inputWalletId
     (orders (db_after (create scenario_sell_env scenario_sell_selection_db ''42''))) = [2] \<and>
   map outputWalletId
     (orders (db_after (create scenario_sell_env scenario_sell_selection_db ''42''))) = [1] \<and>
   map status
     (orders (db_after (create scenario_sell_env scenario_sell_selection_db ''42'')))
     = [Submitted] \<and>
   map orderDirection
     (orders (db_after (create scenario_sell_env scenario_sell_selection_db ''42'')))
     = [Buy]"
  by (simp add: scenario_defs scenario_sell_user_def scenario_sell_selection_db_def
      scenario_sell_env_def submission_defs Let_def)

text \<open>
  Claim C2. When a submission reserving the amount A goes through, the transaction it
  commits holds one more Order, in status submitted and with inAmount A, and every wallet
  row of the order's input wallet has its confirmed balance lowered by A and its
  unconfirmed balance raised by A; the other wallets that existed are as they were.
\<close>

theorem reserve_on_submission:
  assumes "result (transactionalCreateOrderAndSendToNetwork e db userId sig inputATA' outputATA'
             rawAmount amountInUsd ourFee priorityFee' recentBlockhash' limitOrder' dcaPubKey')
           = Inr sent"
  shows "\<exists>ord. orders (db_after (transactionalCreateOrderAndSendToNetwork e db userId sig
               inputATA' outputATA' rawAmount amountInUsd ourFee priorityFee' recentBlockhash'
               limitOrder' dcaPubKey')) = orders db @ [ord]
           \<and> status ord = Submitted \<and> inAmount ord = rawAmount
           \<and> (\<exists>w \<in> set (wallets db). wallet_id w = inputWalletId ord)
           \<and> take (length (wallets db)) (wallets (db_after
               (transactionalCreateOrderAndSendToNetwork e db userId sig
               inputATA' outputATA' rawAmount amountInUsd ourFee priorityFee' recentBlockhash'
               limitOrder' dcaPubKey'))) =
               map (\<lambda>w. if wallet_id w = inputWalletId ord
                         then w\<lparr>confirmedBalance := confirmedBalance w - rawAmount,
                                unconfirmedBalance := unconfirmedBalance w + rawAmount\<rparr>
                         else w) (wallets db)"
proof -
  obtain r tr where c: "createOrderAndSend e db userId sig inputATA' outputATA' rawAmount
      amountInUsd ourFee priorityFee' recentBlockhash' limitOrder' dcaPubKey' = (r, tr)"
    by (cases "createOrderAndSend e db userId sig inputATA' outputATA' rawAmount
      amountInUsd ourFee priorityFee' recentBlockhash' limitOrder' dcaPubKey'") auto
  from assms c obtain db' where r: "r = Inr (db', sent)"
    by (cases r) (auto simp: transactionalCreateOrderAndSendToNetwork_def)
  from c r have after: "db_after (transactionalCreateOrderAndSendToNetwork e db userId sig
      inputATA' outputATA' rawAmount amountInUsd ourFee priorityFee' recentBlockhash'
      limitOrder' dcaPubKey') = db'"
    by (simp add: transactionalCreateOrderAndSendToNetwork_def)
  from createOrderAndSend_Inr[OF c[unfolded r]] obtain ord where
    "\<exists>iw \<in> set (wallets db). wallet_id iw = inputWalletId ord" "status ord = Submitted"
    "inAmount ord = rawAmount" "orders db' = orders db @ [ord]"
    "take (length (wallets db)) (wallets db') =
       Wallet_update (reserve rawAmount) (inputWalletId ord) (wallets db)"
    by blast
  then show ?thesis
    unfolding after by (auto simp: Wallet_update_def reserve_def intro!: exI[of _ ord])
qed

text \<open>
  Scenario A: the default wallet holds 1,000,000 and the buy reserves 400,000. The
  submission goes through and the theorem applies to it.
\<close>

lemma scenario_A_balances:
  "result scenario_submission = Inr ''Sig1'' \<and>
   map (\<lambda>w. (wallet_id w, confirmedBalance w, unconfirmedBalance w))
       (wallets (db_after scenario_submission)) = [(1, 600000, 400000), (2, 0, 0)] \<and>
   map (\<lambda>r. (inAmount r, status r)) (orders (db_after scenario_submission))
     = [(400000, Submitted)]"
  by (simp add: scenario_defs submission_defs Let_def)

theorem reserve_on_submission_witness:
  "result scenario_submission = Inr ''Sig1'' \<and>
   (\<exists>ord. orders (db_after scenario_submission) = orders scenario_db @ [ord]
      \<and> status ord = Submitted \<and> inAmount ord = 400000
      \<and> (\<exists>w \<in> set (wallets scenario_db). wallet_id w = inputWalletId ord)
      \<and> take (length (wallets scenario_db)) (wallets (db_after scenario_submission)) =
          map (\<lambda>w. if wallet_id w = inputWalletId ord
                    then w\<lparr>confirmedBalance := confirmedBalance w - 400000,
                           unconfirmedBalance := unconfirmedBalance w + 400000\<rparr>
                    else w) (wallets scenario_db))"
proof -
  have ev: "result (transactionalCreateOrderAndSendToNetwork scenario_env scenario_db 1 ''Sig1''
       ''OwnerWsolATA'' ''OwnerBaseATA'' 400000 (6 / 100) 2000 10 scenario_blockhash None None)
      = Inr ''Sig1''"
    using scenario_A_balances by (simp add: scenario_submission_def)
  from ev reserve_on_submission[OF ev] show ?thesis
    unfolding scenario_submission_def by (rule conjI)
qed

text \<open>The events of a submission, in their order.\<close>

lemma createOrderAndSend_trace:
  assumes "createOrderAndSend e db userId sig inputATA' outputATA'
             rawAmount amountInUsd ourFee priorityFee' recentBlockhash' limitOrder' dcaPubKey'
           = (r, tr)"
  shows "(isl r \<and> set tr \<subseteq> range DbWrite) \<or>
         ((r = Inl SendFailed \<and> sendRawTransaction e sig = None \<or>
           (\<exists>db' sent. r = Inr (db', sent) \<and> sendRawTransaction e sig = Some sent)) \<and>
          tr = take (length tr - 4) tr @
                 [DbWrite UsersTable, DbWrite OrdersTable, DbWrite WalletsTable,
                  SendRawTransaction sig] \<and>
          set (take (length tr - 4) tr) \<subseteq> range DbWrite)"
  using assms unfolding createOrderAndSend_def Let_def
  by (auto split: option.splits if_splits)

text \<open>
  Claim C5, as the code has it. The signed transaction is sent to the network inside
  the managed database transaction, as the last step of its callback. A run is one of
  three: the callback throws before the send, nothing is sent and the transaction is
  rolled back; the three writes are issued, the send throws and the transaction is
  rolled back; the three writes are issued, the send returns and then the transaction
  commits. In a rolled-back run the database is as before.
\<close>

theorem send_inside_transaction:
  "\<exists>ws. set ws \<subseteq> range DbWrite \<and>
     (let out = transactionalCreateOrderAndSendToNetwork e db userId sig inputATA' outputATA'
                  rawAmount amountInUsd ourFee priorityFee' recentBlockhash' limitOrder' dcaPubKey'
      in (trace out = TxBegin # ws @ [TxRollback] \<and> db_after out = db \<and> isl (result out))
       \<or> (trace out = TxBegin # ws @ [DbWrite UsersTable, DbWrite OrdersTable, DbWrite WalletsTable,
                                        SendRawTransaction sig, TxRollback]
            \<and> db_after out = db \<and> result out = Inl SendFailed \<and> sendRawTransaction e sig = None)
       \<or> (trace out = TxBegin # ws @ [DbWrite UsersTable, DbWrite OrdersTable, DbWrite WalletsTable,
                                        SendRawTransaction sig, TxCommit]
            \<and> (\<exists>sent. result out = Inr sent \<and> sendRawTransaction e sig = Some sent)))"
proof -
  obtain r tr where c: "createOrderAndSend e db userId sig inputATA' outputATA'
      rawAmount amountInUsd ourFee priorityFee' recentBlockhash' limitOrder' dcaPubKey' = (r, tr)"
    by (cases "createOrderAndSend e db userId sig inputATA' outputATA'
      rawAmount amountInUsd ourFee priorityFee' recentBlockhash' limitOrder' dcaPubKey'") auto
  let ?sent = "[DbWrite UsersTable, DbWrite OrdersTable, DbWrite WalletsTable,
               SendRawTransaction sig]"
  define ws where "ws = take (length tr - 4) tr"
  have tx: "transactionalCreateOrderAndSendToNetwork e db userId sig inputATA' outputATA'
      rawAmount amountInUsd ourFee priorityFee' recentBlockhash' limitOrder' dcaPubKey' =
      (case (r, tr) of
         (Inl er, tr) \<Rightarrow> \<lparr>db_after = db, trace = TxBegin # tr @ [TxRollback], result = Inl er\<rparr>
       | (Inr (db', sent), tr) \<Rightarrow>
           \<lparr>db_after = db', trace = TxBegin # tr @ [TxCommit], result = Inr sent\<rparr>)"
    by (simp add: transactionalCreateOrderAndSendToNetwork_def c)
  from createOrderAndSend_trace[OF c, folded ws_def] show ?thesis
  proof (elim disjE conjE exE)
    assume "isl r" and w: "set tr \<subseteq> range DbWrite"
    then obtain er where "r = Inl er" by (cases r) auto
    with w show ?thesis
      unfolding tx by (intro exI[of _ tr]) simp
  next
    assume "r = Inl SendFailed" "sendRawTransaction e sig = None" "tr = ws @ ?sent"
      "set ws \<subseteq> range DbWrite"
    then show ?thesis
      unfolding tx by (intro exI[of _ ws]) simp
  next
    fix db' sent
    assume "r = Inr (db', sent)" "sendRawTransaction e sig = Some sent" "tr = ws @ ?sent"
      "set ws \<subseteq> range DbWrite"
    then show ?thesis
      unfolding tx by (intro exI[of _ ws]) simp
  qed
qed

text \<open>
  Scenario A again: the send stands before the commit, inside the open transaction; and
  when the node refuses the transaction, the send has been made and the transaction is
  rolled back.
\<close>

theorem send_before_commit_counterexample:
  "trace scenario_submission =
     [TxBegin, DbWrite UsersTable, DbWrite OrdersTable, DbWrite WalletsTable,
      SendRawTransaction ''Sig1'', TxCommit] \<and>
   result scenario_submission = Inr ''Sig1'' \<and>
   trace scenario_refused_submission =
     [TxBegin, DbWrite UsersTable, DbWrite OrdersTable, DbWrite WalletsTable,
      SendRawTransaction ''Sig1'', TxRollback] \<and>
   result scenario_refused_submission = Inl SendFailed"
  by (simp add: scenario_defs scenario_refused_submission_def submission_defs Let_def)

subsection \<open>The reconciler\<close>

lemma getOrderById_row:
  "getOrderById db orderId = Some ord \<Longrightarrow>
     find (\<lambda>r. order_id r = orderId) (orders db) = Some (row ord) \<and> order_id (row ord) = orderId"
  by (auto simp: getOrderById_def split: Option.bind_splits dest: find_Some_mem)

lemma find_Order_save_failed:
  "find (\<lambda>r. order_id r = i) (Order_save_failed i txFee os) =
     map_option (\<lambda>r. r\<lparr>networkFee := txFee, succeeded := False, status := Failed\<rparr>)
       (find (\<lambda>r. order_id r = i) os)"
  by (induction os) (auto simp: Order_save_failed_def)

lemma find_Order_save_confirmed:
  "find (\<lambda>r. order_id r = i) (Order_save_confirmed i out txFee os) =
     map_option (\<lambda>r. r\<lparr>outAmount := Some out, networkFee := txFee, succeeded := True,
                        status := Confirmed\<rparr>)
       (find (\<lambda>r. order_id r = i) os)"
  by (induction os) (auto simp: Order_save_confirmed_def)

text \<open>A settlement that reports a result has saved the order in a terminal status.\<close>

lemma handleTransactionFailure_orders:
  "handleTransactionFailure db ord txFee s = (db', True) \<Longrightarrow>
     orders db' = Order_save_failed (order_id (row ord)) txFee (orders db)"
  by (auto simp: handleTransactionFailure_def Let_def split: if_splits)

lemma updateOrderWalletPnL_orders:
  "updateOrderWalletPnL e db bw ord base txFee quote s = (db', True) \<Longrightarrow>
     orders db' = Order_save_confirmed (order_id (row ord))
        (if orderDirection (row ord) = Buy then base else quote) txFee (orders db)"
  by (auto simp: updateOrderWalletPnL_def Let_def split: option.splits if_splits)

lemma settleParsedTransaction_terminal:
  assumes "settleParsedTransaction e db ord ti = (db', Some res)"
    and "find (\<lambda>r. order_id r = order_id (row ord)) (orders db) = Some (row ord)"
  shows "\<exists>r'. find (\<lambda>r. order_id r = order_id (row ord)) (orders db') = Some r' \<and>
              (status r' = Confirmed \<or> status r' = Failed)"
  using assms
  unfolding settleParsedTransaction_def Let_def
  by (auto split: option.splits if_splits prod.splits bool.splits
      dest!: handleTransactionFailure_orders updateOrderWalletPnL_orders
      simp: find_Order_save_failed find_Order_save_confirmed)

lemma checkConfirmation_terminal_noop:
  assumes "find (\<lambda>r. order_id r = orderId) (orders db) = Some r"
    and "status r = Confirmed \<or> status r = Failed"
  shows "db_after (checkConfirmation e db orderId) = db \<and> trace (checkConfirmation e db orderId) = []"
proof (cases "getOrderById db orderId")
  case None
  then show ?thesis by (simp add: checkConfirmation_def)
next
  case (Some ord)
  with assms(1) have "row ord = r" by (auto dest: getOrderById_row)
  with assms(2) Some show ?thesis by (auto simp: checkConfirmation_def)
qed

lemma checkConfirmation_result_terminal:
  assumes "result (checkConfirmation e db orderId) = Some res"
  shows "\<exists>r'. find (\<lambda>r. order_id r = orderId) (orders (db_after (checkConfirmation e db orderId)))
                 = Some r' \<and> (status r' = Confirmed \<or> status r' = Failed)"
proof (cases "getOrderById db orderId")
  case None
  with assms show ?thesis by (simp add: checkConfirmation_def)
next
  case (Some ord)
  note r = getOrderById_row[OF Some]
  from r have f: "find (\<lambda>r. order_id r = order_id (row ord)) (orders db) = Some (row ord)"
    by simp
  show ?thesis
    using assms Some r settleParsedTransaction_terminal[OF _ f, of e]
    unfolding checkConfirmation_def Let_def
    by (auto split: if_splits confirm_result.splits option.splits prod.splits
        dest!: handleTransactionFailure_orders simp: find_Order_save_failed)
qed


text \<open>
  Claim C7. For an order already confirmed or failed, a direct run of
  \<open>checkConfirmation\<close> changes nothing in the database (no order, wallet or PnL row)
  and calls the node not at all, and the reconciler's selection does not contain the
  order. And whenever a run of \<open>checkConfirmation\<close> reports a result, a second run
  on the same order, whatever the node answers then, leaves the database as the first
  run left it.
\<close>

theorem settlement_idempotent:
  "(\<forall>r. find (\<lambda>r. order_id r = orderId) (orders db) = Some r \<and>
         (status r = Confirmed \<or> status r = Failed) \<longrightarrow>
         db_after (checkConfirmation e db orderId) = db \<and>
         trace (checkConfirmation e db orderId) = [] \<and>
         r \<notin> set (selectSubmitted e db)) \<and>
   (\<forall>res e'. result (checkConfirmation e db orderId) = Some res \<longrightarrow>
         db_after (checkConfirmation e' (db_after (checkConfirmation e db orderId)) orderId)
           = db_after (checkConfirmation e db orderId))"
proof (intro conjI allI impI)
  fix r
  assume a: "find (\<lambda>r. order_id r = orderId) (orders db) = Some r \<and>
             (status r = Confirmed \<or> status r = Failed)"
  then show "db_after (checkConfirmation e db orderId) = db"
    and "trace (checkConfirmation e db orderId) = []"
    using checkConfirmation_terminal_noop[of orderId db r e] by auto
  from a show "r \<notin> set (selectSubmitted e db)"
    by (auto simp: selectSubmitted_def)
next
  fix res e'
  assume "result (checkConfirmation e db orderId) = Some res"
  from checkConfirmation_result_terminal[OF this] obtain r' where
    "find (\<lambda>r. order_id r = orderId) (orders (db_after (checkConfirmation e db orderId))) = Some r'"
    "status r' = Confirmed \<or> status r' = Failed"
    by blast
  then show "db_after (checkConfirmation e' (db_after (checkConfirmation e db orderId)) orderId)
           = db_after (checkConfirmation e db orderId)"
    using checkConfirmation_terminal_noop by blast
qed

text \<open>
  Scenario B, the order: it is confirmed with outAmount 250 and networkFee 5,000. A
  second run, against a node that now reports the blockhash expired, changes nothing.
\<close>

lemma scenario_B_order:
  "map_option result_status (result (checkConfirmation scenario_env scenario_buy_db 1))
     = Some Confirmed \<and>
   map (\<lambda>r. (order_id r, status r, outAmount r, networkFee r, succeeded r))
     (orders (db_after (checkConfirmation scenario_env scenario_buy_db 1)))
     = [(1, Confirmed, Some 250, 5000, True)]"
  by (simp add: scenario_defs settlement_defs Let_def)

theorem settlement_idempotent_witness:
  "map_option result_status (result (checkConfirmation scenario_env scenario_buy_db 1))
     = Some Confirmed \<and>
   db_after (checkConfirmation scenario_expired_env
               (db_after (checkConfirmation scenario_env scenario_buy_db 1)) 1)
     = db_after (checkConfirmation scenario_env scenario_buy_db 1) \<and>
   find (\<lambda>r. order_id r = 1) (orders scenario_settled_db) = Some scenario_settled_row \<and>
   status scenario_settled_row = Confirmed \<and>
   db_after (checkConfirmation scenario_expired_env scenario_settled_db 1)
     = scenario_settled_db \<and>
   trace (checkConfirmation scenario_expired_env scenario_settled_db 1) = [] \<and>
   scenario_settled_row \<notin> set (selectSubmitted scenario_expired_env scenario_settled_db)"
proof -
  from scenario_B_order obtain res where
    "result (checkConfirmation scenario_env scenario_buy_db 1) = Some res"
    by (cases "result (checkConfirmation scenario_env scenario_buy_db 1)") auto
  with settlement_idempotent[of 1 scenario_buy_db scenario_env] scenario_B_order
  have twice: "db_after (checkConfirmation scenario_expired_env
               (db_after (checkConfirmation scenario_env scenario_buy_db 1)) 1)
     = db_after (checkConfirmation scenario_env scenario_buy_db 1)"
    by blast
  have f: "find (\<lambda>r. order_id r = 1) (orders scenario_settled_db) = Some scenario_settled_row"
    by (simp add: scenario_settled_db_def scenario_db_def scenario_settled_row_def
        scenario_buy_row_def)
  have st: "status scenario_settled_row = Confirmed"
    by (simp add: scenario_settled_row_def)
  from settlement_idempotent[of 1 scenario_settled_db scenario_expired_env] f st
  have noop: "db_after (checkConfirmation scenario_expired_env scenario_settled_db 1)
       = scenario_settled_db"
    "trace (checkConfirmation scenario_expired_env scenario_settled_db 1) = []"
    "scenario_settled_row \<notin> set (selectSubmitted scenario_expired_env scenario_settled_db)"
    by blast+
  from scenario_B_order twice f st noop show ?thesis by (intro conjI) blast+
qed

text \<open>The settlement does not depend on what \<open>confirmTransaction\<close> answered.\<close>

lemma updateOrCreatePnL_confirm_irrelevant:
  "updateOrCreatePnL (e\<lparr>confirmTransaction := c\<rparr>) bw ord base quote ps
     = updateOrCreatePnL e bw ord base quote ps"
  by (simp add: updateOrCreatePnL_def cong: option.case_cong if_cong)

lemma updateOrderWalletPnL_confirm_irrelevant:
  "updateOrderWalletPnL (e\<lparr>confirmTransaction := c\<rparr>) db bw ord base txFee quote s
     = updateOrderWalletPnL e db bw ord base txFee quote s"
  by (simp add: updateOrderWalletPnL_def updateOrCreatePnL_confirm_irrelevant
      cong: option.case_cong if_cong)

lemma settleParsedTransaction_confirm_irrelevant:
  "settleParsedTransaction (e\<lparr>confirmTransaction := c\<rparr>) db ord ti
     = settleParsedTransaction e db ord ti"
  by (simp add: settleParsedTransaction_def updateOrderWalletPnL_confirm_irrelevant
      cong: option.case_cong if_cong prod.case_cong)

text \<open>
  Claim C6. When \<open>confirmTransaction\<close> throws the blockheight-exceeded error for an
  order that is not yet terminal, \<open>checkConfirmation\<close> makes exactly one lookup by
  signature after it. If the transaction is not found, the order is settled as failed
  with networkFee 0 through \<open>handleTransactionFailure\<close>. If it is found, the run is
  the run of the ordinary path on the same transaction: it equals the run in which
  \<open>confirmTransaction\<close> returned, and a transaction with an execution error is
  settled as failed with the fee of its metadata.
\<close>

theorem expiry_lookup:
  assumes "getOrderById db orderId = Some ord"
    and "transactionId (row ord) \<noteq> []" and "hasBlockhash (row ord)"
    and "status (row ord) \<noteq> Confirmed" and "status (row ord) \<noteq> Failed"
    and "confirmTransaction e (transactionId (row ord)) = BlockheightExceeded"
  shows "trace (checkConfirmation e db orderId) =
           [ConfirmTransactionCall (transactionId (row ord)),
            GetParsedTransactionCall (transactionId (row ord))] \<and>
         (getParsedTransaction e (transactionId (row ord)) = None \<longrightarrow>
            db_after (checkConfirmation e db orderId) = fst (handleTransactionFailure db ord 0 False) \<and>
            map_option result_status (result (checkConfirmation e db orderId)) = Some Failed \<and>
            find (\<lambda>r. order_id r = orderId) (orders (db_after (checkConfirmation e db orderId)))
              = Some ((row ord)\<lparr>networkFee := 0, succeeded := False, status := Failed\<rparr>)) \<and>
         (\<forall>ti. getParsedTransaction e (transactionId (row ord)) = Some ti \<longrightarrow>
            checkConfirmation e db orderId =
              checkConfirmation (e\<lparr>confirmTransaction := (\<lambda>s. ConfirmationReturned)\<rparr>) db orderId \<and>
            (db_after (checkConfirmation e db orderId), result (checkConfirmation e db orderId))
              = settleParsedTransaction e db ord ti \<and>
            (\<forall>m. meta ti = Some m \<and> err m \<longrightarrow>
               db_after (checkConfirmation e db orderId)
                 = fst (handleTransactionFailure db ord (int (fee m)) False)))"
proof -
  let ?sig = "transactionId (row ord)"
  note r = getOrderById_row[OF assms(1)]
  have tr: "trace (checkConfirmation e db orderId) =
      [ConfirmTransactionCall ?sig, GetParsedTransactionCall ?sig]"
    using assms by (simp add: checkConfirmation_def Let_def split: option.splits prod.splits)
  have none: "db_after (checkConfirmation e db orderId) = fst (handleTransactionFailure db ord 0 False) \<and>
      map_option result_status (result (checkConfirmation e db orderId)) = Some Failed \<and>
      find (\<lambda>r. order_id r = orderId) (orders (db_after (checkConfirmation e db orderId)))
        = Some ((row ord)\<lparr>networkFee := 0, succeeded := False, status := Failed\<rparr>)"
    if "getParsedTransaction e ?sig = None"
    using assms that r
    by (simp add: checkConfirmation_def Let_def handleTransactionFailure_def
        find_Order_save_failed)
  have some: "checkConfirmation e db orderId =
        checkConfirmation (e\<lparr>confirmTransaction := (\<lambda>s. ConfirmationReturned)\<rparr>) db orderId \<and>
      (db_after (checkConfirmation e db orderId), result (checkConfirmation e db orderId))
        = settleParsedTransaction e db ord ti \<and>
      (\<forall>m. meta ti = Some m \<and> err m \<longrightarrow>
         db_after (checkConfirmation e db orderId)
           = fst (handleTransactionFailure db ord (int (fee m)) False))"
    if "getParsedTransaction e ?sig = Some ti" for ti
  proof -
    have a: "checkConfirmation e db orderId =
        (case settleParsedTransaction e db ord ti of
           (db', r) \<Rightarrow> \<lparr>db_after = db',
              trace = [ConfirmTransactionCall ?sig, GetParsedTransactionCall ?sig],
              result = r\<rparr>)"
      using assms that by (simp add: checkConfirmation_def Let_def)
    have b: "checkConfirmation (e\<lparr>confirmTransaction := (\<lambda>s. ConfirmationReturned)\<rparr>) db orderId =
        (case settleParsedTransaction e db ord ti of
           (db', r) \<Rightarrow> \<lparr>db_after = db',
              trace = [ConfirmTransactionCall ?sig, GetParsedTransactionCall ?sig],
              result = r\<rparr>)"
      using assms that
      by (simp add: checkConfirmation_def Let_def settleParsedTransaction_confirm_irrelevant)
    have c: "fst (settleParsedTransaction e db ord ti)
        = fst (handleTransactionFailure db ord (int (fee m)) False)"
      if "meta ti = Some m" "err m" for m
      using that by (simp add: settleParsedTransaction_def split: prod.splits bool.splits)
    show ?thesis
      using c by (auto simp: a b split: prod.splits)
  qed
  from tr none some show ?thesis by blast
qed

text \<open>
  The buy of Scenario A under an expired blockhash: unknown to the node, it is failed
  with fee 0 and the reservation is refunded in full; found landed, it is settled as in
  Scenario B.
\<close>

theorem expiry_lookup_witness:
  "getOrderById scenario_buy_db 1 = Some scenario_buy_loaded \<and>
   confirmTransaction scenario_expired_env ''Sig1'' = BlockheightExceeded \<and>
   getParsedTransaction scenario_expired_env ''Sig1'' = None \<and>
   trace (checkConfirmation scenario_expired_env scenario_buy_db 1) =
     [ConfirmTransactionCall ''Sig1'', GetParsedTransactionCall ''Sig1''] \<and>
   map_option result_status (result (checkConfirmation scenario_expired_env scenario_buy_db 1))
     = Some Failed \<and>
   find (\<lambda>r. order_id r = 1)
     (orders (db_after (checkConfirmation scenario_expired_env scenario_buy_db 1)))
     = Some (scenario_buy_row\<lparr>networkFee := 0, succeeded := False, status := Failed\<rparr>) \<and>
   map (\<lambda>w. (wallet_id w, confirmedBalance w, unconfirmedBalance w))
     (wallets (db_after (checkConfirmation scenario_expired_env scenario_buy_db 1)))
     = [(1, 1000000, 0), (2, 0, 0)] \<and>
   getParsedTransaction scenario_expired_landed_env ''Sig1'' = Some scenario_landed \<and>
   checkConfirmation scenario_expired_landed_env scenario_buy_db 1 =
     checkConfirmation
       (scenario_expired_landed_env\<lparr>confirmTransaction := (\<lambda>s. ConfirmationReturned)\<rparr>)
       scenario_buy_db 1"
proof -
  have g: "getOrderById scenario_buy_db 1 = Some scenario_buy_loaded"
    by (simp add: scenario_defs scenario_buy_loaded_def getOrderById_def)
  have r: "row scenario_buy_loaded = scenario_buy_row"
    by (simp add: scenario_buy_loaded_def)
  have h: "transactionId (row scenario_buy_loaded) \<noteq> []" "hasBlockhash (row scenario_buy_loaded)"
    "status (row scenario_buy_loaded) \<noteq> Confirmed" "status (row scenario_buy_loaded) \<noteq> Failed"
    by (simp_all add: scenario_defs scenario_buy_loaded_def hasBlockhash_def)
  have sg: "transactionId (row scenario_buy_loaded) = ''Sig1''"
    by (simp add: scenario_defs scenario_buy_loaded_def)
  have c1: "confirmTransaction scenario_expired_env (transactionId (row scenario_buy_loaded))
      = BlockheightExceeded"
    and c2: "confirmTransaction scenario_expired_landed_env (transactionId (row scenario_buy_loaded))
      = BlockheightExceeded"
    by (simp_all add: scenario_expired_env_def scenario_expired_landed_env_def)
  have n: "getParsedTransaction scenario_expired_env ''Sig1'' = None"
    and f: "getParsedTransaction scenario_expired_landed_env ''Sig1'' = Some scenario_landed"
    by (simp_all add: scenario_expired_env_def scenario_expired_landed_env_def scenario_env_def)
  have w: "map (\<lambda>w. (wallet_id w, confirmedBalance w, unconfirmedBalance w))
     (wallets (db_after (checkConfirmation scenario_expired_env scenario_buy_db 1)))
     = [(1, 1000000, 0), (2, 0, 0)]"
    by (simp add: scenario_defs scenario_expired_env_def settlement_defs Let_def)
  have sg': "transactionId scenario_buy_row = ''Sig1''"
    by (simp add: scenario_buy_row_def)
  note t1 = expiry_lookup[OF g h c1, unfolded r sg']
  note t2 = expiry_lookup[OF g h c2, unfolded r sg']
  from t1 n have a:
    "trace (checkConfirmation scenario_expired_env scenario_buy_db 1) =
       [ConfirmTransactionCall ''Sig1'', GetParsedTransactionCall ''Sig1'']"
    "map_option result_status (result (checkConfirmation scenario_expired_env scenario_buy_db 1))
       = Some Failed"
    "find (\<lambda>r. order_id r = 1)
       (orders (db_after (checkConfirmation scenario_expired_env scenario_buy_db 1)))
       = Some (scenario_buy_row\<lparr>networkFee := 0, succeeded := False, status := Failed\<rparr>)"
    by blast+
  from t2 f have b: "checkConfirmation scenario_expired_landed_env scenario_buy_db 1 =
     checkConfirmation
       (scenario_expired_landed_env\<lparr>confirmTransaction := (\<lambda>s. ConfirmationReturned)\<rparr>)
       scenario_buy_db 1"
    by blast
  from a b n f g c1 w show ?thesis
    unfolding sg by (intro conjI)
qed

subsection \<open>The PnL ledger\<close>

lemma PnL_findOne_open_mem:
  "PnL_findOne_open bw ps = Some p \<Longrightarrow> p \<in> set ps \<and> pnl_walletId p = bw \<and> \<not> isClosed p"
  by (auto simp: PnL_findOne_open_def dest: find_Some_mem)

text \<open>
  The two texts of the close test never coincide: the text of the column holds a point
  and no exponent, and BigNumber's text of an integer holds no point unless it holds an
  exponent.
\<close>

lemma digit_char_mem: "d < 10 \<Longrightarrow> digit_char d \<in> set ''0123456789''"
  unfolding digit_char_def by (rule nth_mem) simp

lemma decimal_digits_set: "set (decimal_digits n) \<subseteq> set ''0123456789''"
proof (induction n rule: decimal_digits.induct)
  case (1 n)
  show ?case
  proof (cases "n < 10")
    case True
    then show ?thesis
      using digit_char_mem[of n] by (subst decimal_digits.simps) simp
  next
    case False
    have "n mod 10 < 10" by simp
    from digit_char_mem[OF this] 1[OF False] False show ?thesis
      by (subst decimal_digits.simps) simp
  qed
qed

lemma DECIMAL_text_point: "CHR ''.'' \<in> set (DECIMAL_text 78 n)"
  by (simp add: DECIMAL_text_def)

lemma DECIMAL_text_no_e: "CHR ''e'' \<notin> set (DECIMAL_text 78 n)"
  using decimal_digits_set[of "nat \<bar>n\<bar>"] by (auto simp: DECIMAL_text_def)

lemma BigNumber_toString_shape:
  "CHR ''.'' \<notin> set (BigNumber_toString n) \<or> CHR ''e'' \<in> set (BigNumber_toString n)"
  using decimal_digits_set[of "nat \<bar>n\<bar>"]
  by (auto simp: BigNumber_toString_def Let_def)

lemma close_test_false: "BigNumber_toString a \<noteq> DECIMAL_text 78 b"
  using BigNumber_toString_shape[of a] DECIMAL_text_point[of b] DECIMAL_text_no_e[of b]
  by auto

lemma PnL_update_keep:
  "(\<And>r. isClosed (f r) = isClosed r) \<Longrightarrow>
   list_all2 (\<lambda>p p'. isClosed p' \<longrightarrow> isClosed p) ps (PnL_update f i ps)"
  by (simp add: PnL_update_def list_all2_map2 list_all2_same)

text \<open>
  Claim C8, against the code. No accumulate operation closes a position: a position
  that is closed after the operation was closed before it, and a position the operation
  creates is open. In particular a sell that brings \<open>cumulativeSellQuantity\<close> up to
  \<open>cumulativeBuyQuantity\<close> leaves the position open with the two quantities equal:
  the close test compares \<open>BigNumber.toString()\<close>, which is \<open>100\<close> for a
  hundred, with the text of the DECIMAL(156,78) column, which is \<open>100.\<close> followed
  by 78 zeros, and writes \<open>isClosed\<close> false.
\<close>

theorem pnl_never_closed:
  assumes "updateOrCreatePnL e baseWalletId ord baseChange quoteChange ps = Some ps'"
  shows "list_all2 (\<lambda>p p'. isClosed p' \<longrightarrow> isClosed p) ps (take (length ps) ps') \<and>
         list_all (\<lambda>p'. \<not> isClosed p') (drop (length ps) ps') \<and>
         (\<forall>p. PnL_findOne_open baseWalletId ps = Some p \<and> orderDirection (row ord) = Sell \<and>
              cumulativeSellQuantity p + inAmount (row ord) = cumulativeBuyQuantity p \<longrightarrow>
              (\<exists>p' \<in> set ps'. pnl_id p' = pnl_id p \<and>
                 cumulativeSellQuantity p' = cumulativeBuyQuantity p' \<and> \<not> isClosed p'))"
proof (cases "PnL_findOne_open baseWalletId ps")
  case None
  with assms show ?thesis
    by (auto simp: updateOrCreatePnL_def list_all2_same split: if_splits)
next
  case (Some p)
  note mem = PnL_findOne_open_mem[OF Some]
  show ?thesis
  proof (cases "orderDirection (row ord) = Buy")
    case True
    with assms Some have ps': "ps' = PnL_update
            (\<lambda>r. r\<lparr>cumulativeBuyQuantity := cumulativeBuyQuantity r + baseChange,
                    cumulativeBuyCostInSol := cumulativeBuyCostInSol r + inAmount (row ord),
                    cumulativeBuyCostInUsd := cumulativeBuyCostInUsd r + inAmountInUsd (row ord)\<rparr>)
            (pnl_id p) ps"
      by (simp add: updateOrCreatePnL_def)
    have "length ps' = length ps" by (simp add: ps' PnL_update_def)
    with True show ?thesis
      unfolding ps' by (simp add: PnL_update_keep)
  next
    case False
    with assms Some obtain solPrice where ps': "ps' = PnL_update
                (\<lambda>r. r\<lparr>cumulativeSellQuantity := cumulativeSellQuantity r + inAmount (row ord),
                        cumulativeSellProceedsInSol :=
                          cumulativeSellProceedsInSol r + quoteChange,
                        cumulativeSellProceedsInUsd :=
                          cumulativeSellProceedsInUsd r
                            + solPrice * (of_int quoteChange / 1000000000),
                        isClosed := False\<rparr>)
                (pnl_id p) ps"
      by (auto simp: updateOrCreatePnL_def close_test_false split: option.splits)
    have len: "length ps' = length ps" by (simp add: ps' PnL_update_def)
    have a: "list_all2 (\<lambda>p p'. isClosed p' \<longrightarrow> isClosed p) ps ps'"
      unfolding ps' by (simp add: PnL_update_def list_all2_map2 list_all2_same)
    have b: "\<exists>p' \<in> set ps'. pnl_id p' = pnl_id p \<and>
                 cumulativeSellQuantity p' = cumulativeBuyQuantity p' \<and> \<not> isClosed p'"
      if "cumulativeSellQuantity p + inAmount (row ord) = cumulativeBuyQuantity p"
      using mem that unfolding ps' PnL_update_def
      by (intro bexI[of _ "p\<lparr>cumulativeSellQuantity := cumulativeSellQuantity p + inAmount (row ord),
                        cumulativeSellProceedsInSol :=
                          cumulativeSellProceedsInSol p + quoteChange,
                        cumulativeSellProceedsInUsd :=
                          cumulativeSellProceedsInUsd p
                            + solPrice * (of_int quoteChange / 1000000000),
                        isClosed := False\<rparr>"]) (auto simp: image_iff intro!: bexI[of _ p])
    from a b len Some show ?thesis by simp
  qed
qed

text \<open>
  Scenario D: the position has 100 bought and 60 sold, and the sell of 40 resolves.
  After it the position has 100 bought and 100 sold and is open. And the position that
  the buy of Scenario B creates is open.
\<close>

theorem pnl_never_closed_witness:
  "updateOrCreatePnL scenario_env 2 scenario_sell_loaded (- 40) 195000 [scenario_position] =
     Some [scenario_sold_position] \<and>
   PnL_findOne_open 2 [scenario_position] = Some scenario_position \<and>
   orderDirection (row scenario_sell_loaded) = Sell \<and>
   cumulativeSellQuantity scenario_position + inAmount (row scenario_sell_loaded)
     = cumulativeBuyQuantity scenario_position \<and>
   cumulativeSellQuantity scenario_sold_position = 100 \<and>
   cumulativeBuyQuantity scenario_sold_position = 100 \<and>
   \<not> isClosed scenario_sold_position \<and>
   updateOrCreatePnL scenario_env 2 scenario_buy_loaded 250 (- 407000) [] =
     Some [scenario_opened_position] \<and>
   list_all (\<lambda>p'. \<not> isClosed p') (drop (length ([] :: pnl list)) [scenario_opened_position])"
proof -
  have ev: "updateOrCreatePnL scenario_env 2 scenario_sell_loaded (- 40) 195000 [scenario_position]
      = Some [scenario_sold_position]"
    by (simp add: scenario_defs scenario_position_def scenario_sold_position_def
        scenario_sell_loaded_def updateOrCreatePnL_def close_test_false
        PnL_findOne_open_def PnL_update_def)
  have fo: "PnL_findOne_open 2 [scenario_position] = Some scenario_position"
    by (simp add: scenario_position_def PnL_findOne_open_def)
  have dir: "orderDirection (row scenario_sell_loaded) = Sell"
    by (simp add: scenario_sell_loaded_def scenario_buy_row_def)
  have eq: "cumulativeSellQuantity scenario_position + inAmount (row scenario_sell_loaded)
     = cumulativeBuyQuantity scenario_position"
    by (simp add: scenario_position_def scenario_sell_loaded_def scenario_buy_row_def)
  have q: "cumulativeSellQuantity scenario_sold_position = 100"
    "cumulativeBuyQuantity scenario_sold_position = 100"
    by (simp_all add: scenario_sold_position_def scenario_position_def)
  from pnl_never_closed[OF ev] fo dir eq
  have "\<exists>p' \<in> set [scenario_sold_position]. pnl_id p' = pnl_id scenario_position \<and>
      cumulativeSellQuantity p' = cumulativeBuyQuantity p' \<and> \<not> isClosed p'"
    by blast
  then have op: "\<not> isClosed scenario_sold_position" by simp
  have ev': "updateOrCreatePnL scenario_env 2 scenario_buy_loaded 250 (- 407000) [] =
     Some [scenario_opened_position]"
    by (simp add: scenario_defs scenario_buy_loaded_def scenario_opened_position_def
        updateOrCreatePnL_def PnL_findOne_open_def next_id_def)
  from pnl_never_closed[OF ev']
  have cr: "list_all (\<lambda>p'. \<not> isClosed p') (drop (length ([] :: pnl list)) [scenario_opened_position])"
    by blast
  from ev fo dir eq q op ev' cr show ?thesis by (intro conjI)
qed

subsection \<open>The balance check of a submission\<close>





subsection \<open>The statuses of an order\<close>

lemma status_step_refl: "status_step r r"
  by (simp add: status_step_def)

lemma status_step_trans: "status_step a b \<Longrightarrow> status_step b c \<Longrightarrow> status_step a c"
  by (auto simp: status_step_def)

lemma list_all2_status_step_refl: "list_all2 status_step os os"
  by (simp add: list_all2_refl status_step_refl)

lemma list_all2_status_step_trans:
  "list_all2 status_step xs ys \<Longrightarrow> list_all2 status_step ys zs \<Longrightarrow> list_all2 status_step xs zs"
  by (rule list_all2_trans[of status_step status_step status_step]) (auto intro: status_step_trans)

lemma status_step_preserves_inv:
  assumes "orders_inv os" "list_all2 status_step os os'"
  shows "orders_inv os'"
proof -
  from assms(2) have ids: "map order_id os' = map order_id os"
    by (induction rule: list_all2_induct) (auto simp: status_step_def)
  have "list_all (\<lambda>r. status r = Submitted \<or> status r = Confirmed \<or> status r = Failed) os'"
    using assms(2) assms(1)
    by (induction rule: list_all2_induct) (auto simp: status_step_def orders_inv_def)
  with ids assms(1) show ?thesis by (simp add: orders_inv_def)
qed

text \<open>With distinct ids, the row of an id is the row that \<open>find\<close> returns.\<close>

lemma distinct_find_unique:
  "distinct (map order_id os) \<Longrightarrow> find (\<lambda>r. order_id r = i) os = Some x \<Longrightarrow>
     r \<in> set os \<Longrightarrow> order_id r = i \<Longrightarrow> r = x"
  by (induction os) (auto split: if_splits dest: find_Some_mem simp: image_iff)

lemma save_failed_step:
  assumes "orders_inv os" "find (\<lambda>r. order_id r = i) os = Some x"
    "status x \<noteq> Confirmed" "status x \<noteq> Failed"
  shows "list_all2 status_step os (Order_save_failed i f os)"
proof -
  have "status_step r (if order_id r = i
          then r\<lparr>networkFee := f, succeeded := False, status := Failed\<rparr> else r)"
    if "r \<in> set os" for r
  proof (cases "order_id r = i")
    case True
    with assms that have "r = x" by (auto simp: orders_inv_def dest: distinct_find_unique)
    with assms that True show ?thesis
      by (auto simp: status_step_def orders_inv_def list_all_iff)
  qed (simp add: status_step_def)
  then show ?thesis
    by (simp add: Order_save_failed_def list_all2_map2 list_all2_same)
qed

lemma save_confirmed_step:
  assumes "orders_inv os" "find (\<lambda>r. order_id r = i) os = Some x"
    "status x \<noteq> Confirmed" "status x \<noteq> Failed"
  shows "list_all2 status_step os (Order_save_confirmed i out f os)"
proof -
  have "status_step r (if order_id r = i
          then r\<lparr>outAmount := Some out, networkFee := f, succeeded := True,
                 status := Confirmed\<rparr> else r)"
    if "r \<in> set os" for r
  proof (cases "order_id r = i")
    case True
    with assms that have "r = x" by (auto simp: orders_inv_def dest: distinct_find_unique)
    with assms that True show ?thesis
      by (auto simp: status_step_def orders_inv_def list_all_iff)
  qed (simp add: status_step_def)
  then show ?thesis
    by (simp add: Order_save_confirmed_def list_all2_map2 list_all2_same)
qed

lemma orders_saved_intros:
  "orders_saved os i os"
  "orders_saved os i (Order_save_failed i f os)"
  "orders_saved os i (Order_save_confirmed i out f os)"
  by (auto simp: orders_saved_def)

lemma handleTransactionFailure_saved:
  "handleTransactionFailure db ord f s = (db', ok) \<Longrightarrow>
     orders_saved (orders db) (order_id (row ord)) (orders db')"
  by (auto simp: handleTransactionFailure_def Let_def orders_saved_intros split: if_splits)

lemma updateOrderWalletPnL_saved:
  "updateOrderWalletPnL e db bw ord base f quote s = (db', ok) \<Longrightarrow>
     orders_saved (orders db) (order_id (row ord)) (orders db')"
  by (auto simp: updateOrderWalletPnL_def Let_def orders_saved_intros
      split: option.splits if_splits)

lemma settleParsedTransaction_saved:
  "settleParsedTransaction e db ord ti = (db', res) \<Longrightarrow>
     orders_saved (orders db) (order_id (row ord)) (orders db')"
  unfolding settleParsedTransaction_def Let_def
  by (auto simp: orders_saved_intros split: option.splits if_splits prod.splits bool.splits
      dest: handleTransactionFailure_saved updateOrderWalletPnL_saved)

lemma checkConfirmation_saved:
  "orders (db_after (checkConfirmation e db orderId)) = orders db \<or>
   (\<exists>ord. getOrderById db orderId = Some ord \<and>
      status (row ord) \<noteq> Confirmed \<and> status (row ord) \<noteq> Failed \<and>
      orders_saved (orders db) orderId (orders (db_after (checkConfirmation e db orderId))))"
proof (cases "getOrderById db orderId")
  case None
  then show ?thesis by (simp add: checkConfirmation_def)
next
  case (Some ord)
  note r = getOrderById_row[OF Some]
  then have i: "order_id (row ord) = orderId" by simp
  show ?thesis
    using Some
    unfolding checkConfirmation_def Let_def
    by (auto simp: orders_saved_intros split: confirm_result.splits option.splits prod.splits
        dest: handleTransactionFailure_saved[of db ord, unfolded i]
              settleParsedTransaction_saved[of e db ord, unfolded i])
qed

lemma orders_saved_step:
  assumes "orders_inv os" "find (\<lambda>r. order_id r = i) os = Some x"
    "status x \<noteq> Confirmed" "status x \<noteq> Failed" "orders_saved os i os'"
  shows "list_all2 status_step os os'"
  using assms(5) unfolding orders_saved_def
  by (auto simp: list_all2_status_step_refl
      intro: save_failed_step[OF assms(1-4)] save_confirmed_step[OF assms(1-4)])

lemma checkConfirmation_step:
  assumes "orders_inv (orders db)"
  shows "list_all2 status_step (orders db) (orders (db_after (checkConfirmation e db orderId)))"
  using checkConfirmation_saved[of e db orderId] assms
  by (auto simp: list_all2_status_step_refl dest!: getOrderById_row intro: orders_saved_step)


lemma checkSelected_step:
  assumes "orders_inv (orders db)" "checkSelected e rs db tr = (Some db', tr')"
  shows "list_all2 status_step (orders db) (orders db')"
  using assms
proof (induction rs arbitrary: db tr)
  case Nil
  then show ?case by (simp add: list_all2_status_step_refl)
next
  case (Cons r rs)
  let ?c = "checkConfirmation e db (order_id r)"
  have s1: "list_all2 status_step (orders db) (orders (db_after ?c))"
    using Cons.prems(1) by (rule checkConfirmation_step)
  with Cons.prems(1) have inv': "orders_inv (orders (db_after ?c))"
    by (rule status_step_preserves_inv)
  from Cons.prems(2) obtain tr1 where "checkSelected e rs (db_after ?c) tr1 = (Some db', tr')"
    by (auto simp: Let_def split: option.splits if_splits)
  from Cons.IH[OF inv' this] have "list_all2 status_step (orders (db_after ?c)) (orders db')" .
  with s1 show ?case by (rule list_all2_status_step_trans)
qed

lemma start_step:
  assumes "orders_inv (orders db)"
  shows "list_all2 status_step (orders db) (orders (db_after (start e db)))"
proof (cases "checkSelected e (selectSubmitted e db) db [TxBegin]")
  case (Pair d tr)
  show ?thesis
  proof (cases d)
    case None
    with Pair show ?thesis by (simp add: start_def list_all2_status_step_refl)
  next
    case (Some db')
    with Pair assms checkSelected_step[of db e "selectSubmitted e db" "[TxBegin]" db' tr]
    show ?thesis by (simp add: start_def)
  qed
qed

text \<open>A submission appends at most one order, submitted and with a fresh id.\<close>

lemma submission_orders:
  "orders (db_after (transactionalCreateOrderAndSendToNetwork e db userId sig inputATA'
       outputATA' rawAmount amountInUsd ourFee priorityFee' recentBlockhash' limitOrder'
       dcaPubKey')) = orders db \<or>
   (\<exists>ord. orders (db_after (transactionalCreateOrderAndSendToNetwork e db userId sig inputATA'
       outputATA' rawAmount amountInUsd ourFee priorityFee' recentBlockhash' limitOrder'
       dcaPubKey')) = orders db @ [ord] \<and>
     status ord = Submitted \<and> orderDirection ord = Buy \<and> orderType ord = Swap \<and>
     order_id ord = next_id (map order_id (orders db)))"
proof -
  obtain r tr where c: "createOrderAndSend e db userId sig inputATA' outputATA' rawAmount
      amountInUsd ourFee priorityFee' recentBlockhash' limitOrder' dcaPubKey' = (r, tr)"
    by (cases "createOrderAndSend e db userId sig inputATA' outputATA' rawAmount
      amountInUsd ourFee priorityFee' recentBlockhash' limitOrder' dcaPubKey'") auto
  show ?thesis
  proof (cases r)
    case (Inl er)
    with c show ?thesis by (simp add: transactionalCreateOrderAndSendToNetwork_def)
  next
    case (Inr x)
    then obtain db' sent where x: "r = Inr (db', sent)" by (cases x) auto
    from createOrderAndSend_Inr[OF c[unfolded x]] c x show ?thesis
      by (auto simp: transactionalCreateOrderAndSendToNetwork_def)
  qed
qed

lemma create_orders:
  "db_after (create e db tid) = db \<or>
   (\<exists>userId sig inputATA' outputATA' rawAmount amountInUsd ourFee priorityFee' recentBlockhash'
      limitOrder' dcaPubKey'.
      db_after (create e db tid) =
        db_after (transactionalCreateOrderAndSendToNetwork e db userId sig inputATA'
          outputATA' rawAmount amountInUsd ourFee priorityFee' recentBlockhash' limitOrder'
          dcaPubKey'))"
proof -
  have "(\<exists>er. create e db tid = \<lparr>db_after = db, trace = [], result = Inl er\<rparr>) \<or>
    (\<exists>userId sig inputATA' outputATA' rawAmount amountInUsd ourFee priorityFee' recentBlockhash'
      limitOrder' dcaPubKey'.
      create e db tid =
        transactionalCreateOrderAndSendToNetwork e db userId sig inputATA'
          outputATA' rawAmount amountInUsd ourFee priorityFee' recentBlockhash' limitOrder'
          dcaPubKey')"
    unfolding create_def
    by (simp split: sum.splits option.splits) blast
  then show ?thesis
  proof (elim disjE exE)
    fix er
    assume "create e db tid = \<lparr>db_after = db, trace = [], result = Inl er\<rparr>"
    then show ?thesis by simp
  next
    fix userId sig inputATA' outputATA' rawAmount amountInUsd ourFee priorityFee'
      recentBlockhash' limitOrder' dcaPubKey'
    assume c: "create e db tid =
        transactionalCreateOrderAndSendToNetwork e db userId sig inputATA'
          outputATA' rawAmount amountInUsd ourFee priorityFee' recentBlockhash' limitOrder'
          dcaPubKey'"
    show ?thesis unfolding c by blast
  qed
qed

lemma next_id_not_mem: "x \<in> set os \<Longrightarrow> next_id (map order_id os) \<noteq> order_id x"
  using next_id_fresh[of "order_id x" "map order_id os"] by auto

text \<open>
  Every operation extends the orders table by orders in status submitted and takes the
  orders it found through \<open>status_step\<close>.
\<close>

lemma appended_step:
  assumes "os' = os \<or> (\<exists>ord. os' = os @ [ord] \<and> status ord = Submitted \<and>
             orderDirection ord = Buy \<and> orderType ord = Swap \<and>
             order_id ord = next_id (map order_id os))"
  shows "list_all2 status_step os (take (length os) os') \<and>
         list_all (\<lambda>r. status r = Submitted) (drop (length os) os') \<and>
         (orders_inv os \<longrightarrow> orders_inv os')"
  using assms
  by (auto simp: list_all2_status_step_refl orders_inv_def dest: next_id_not_mem)

lemma same_length_step:
  assumes "list_all2 status_step os os'"
  shows "list_all2 status_step os (take (length os) os') \<and>
         list_all (\<lambda>r. status r = Submitted) (drop (length os) os') \<and>
         (orders_inv os \<longrightarrow> orders_inv os')"
proof -
  from assms have "length os' = length os" by (simp add: list_all2_lengthD)
  with assms show ?thesis by (auto intro: status_step_preserves_inv)
qed

lemma step_orders:
  assumes "step db db'" "orders_inv (orders db)"
  shows "list_all2 status_step (orders db) (take (length (orders db)) (orders db')) \<and>
         list_all (\<lambda>r. status r = Submitted) (drop (length (orders db)) (orders db')) \<and>
         orders_inv (orders db')"
  using assms
proof (induction rule: step.induct)
  case (submit db e userId sig inputATA' outputATA' rawAmount amountInUsd ourFee priorityFee'
      recentBlockhash' limitOrder' dcaPubKey')
  with appended_step[OF submission_orders] show ?case by blast
next
  case (request db e tid)
  from create_orders[of e db tid] show ?case
  proof
    assume "db_after (create e db tid) = db"
    with request same_length_step[OF list_all2_status_step_refl] show ?thesis by simp
  next
    assume "\<exists>userId sig inputATA' outputATA' rawAmount amountInUsd ourFee priorityFee'
      recentBlockhash' limitOrder' dcaPubKey'.
      db_after (create e db tid) =
        db_after (transactionalCreateOrderAndSendToNetwork e db userId sig inputATA'
          outputATA' rawAmount amountInUsd ourFee priorityFee' recentBlockhash' limitOrder'
          dcaPubKey')"
    then obtain userId sig inputATA' outputATA' rawAmount amountInUsd ourFee priorityFee'
      recentBlockhash' limitOrder' dcaPubKey' where
      "db_after (create e db tid) =
        db_after (transactionalCreateOrderAndSendToNetwork e db userId sig inputATA'
          outputATA' rawAmount amountInUsd ourFee priorityFee' recentBlockhash' limitOrder'
          dcaPubKey')" by blast
    with request appended_step[OF submission_orders[of e db userId sig inputATA'
          outputATA' rawAmount amountInUsd ourFee priorityFee' recentBlockhash' limitOrder'
          dcaPubKey']]
    show ?thesis by simp
  qed
next
  case (settle db e orderId)
  with same_length_step[OF checkConfirmation_step[of db e orderId]] show ?case by blast
next
  case (pass db e)
  with same_length_step[OF start_step[of db e]] show ?case by blast
qed

lemma reachable_inv: "reachable db \<Longrightarrow> orders_inv (orders db)"
proof (induction rule: reachable.induct)
  case (initial db)
  then show ?case by (simp add: orders_inv_def)
next
  case (later db db')
  with step_orders show ?case by blast
qed

text \<open>
  Claim C10. In every state that the operations reach from a store without orders, each
  stored order is submitted, confirmed or failed: no operation assigns created,
  processing, submitting, confirming or a limit status. An operation leaves the status
  of a stored order or moves it from submitted to confirmed or to failed, and every order
  it adds is in status submitted. So the orders the reconciler selects, those in status
  submitted that no other transaction holds locked, are all the orders not yet terminal
  that no other transaction holds locked.
\<close>

theorem order_status_machine:
  assumes "reachable db" "step db db'"
  shows "list_all (\<lambda>r. status r = Submitted \<or> status r = Confirmed \<or> status r = Failed)
           (orders db) \<and>
         list_all2 status_step (orders db) (take (length (orders db)) (orders db')) \<and>
         list_all (\<lambda>r. status r = Submitted) (drop (length (orders db)) (orders db')) \<and>
         selectSubmitted e db =
           filter (\<lambda>r. status r \<noteq> Confirmed \<and> status r \<noteq> Failed \<and>
                        order_id r \<notin> set (lockedOrderIds e)) (orders db)"
proof -
  from assms(1) have inv: "orders_inv (orders db)" by (rule reachable_inv)
  then have st: "list_all (\<lambda>r. status r = Submitted \<or> status r = Confirmed \<or> status r = Failed)
      (orders db)"
    by (simp add: orders_inv_def)
  then have sel: "selectSubmitted e db =
      filter (\<lambda>r. status r \<noteq> Confirmed \<and> status r \<noteq> Failed \<and>
                   order_id r \<notin> set (lockedOrderIds e)) (orders db)"
    unfolding selectSubmitted_def
    by (intro filter_cong) (auto simp: list_all_iff)
  from step_orders[OF assms(2) inv] st sel show ?thesis by blast
qed

text \<open>
  Scenario A and then Scenario B: the store after the submission is reachable, and the
  run of \<open>checkConfirmation\<close> on its order is an operation; the order goes from
  submitted to confirmed.
\<close>

theorem order_status_machine_witness:
  "reachable (db_after scenario_submission) \<and>
   step (db_after scenario_submission)
     (db_after (checkConfirmation scenario_env (db_after scenario_submission) 1)) \<and>
   map status (orders (db_after scenario_submission)) = [Submitted] \<and>
   map status (orders (db_after (checkConfirmation scenario_env
      (db_after scenario_submission) 1))) = [Confirmed] \<and>
   list_all (\<lambda>r. status r = Submitted \<or> status r = Confirmed \<or> status r = Failed)
     (orders (db_after scenario_submission)) \<and>
   list_all2 status_step (orders (db_after scenario_submission))
     (take (length (orders (db_after scenario_submission)))
        (orders (db_after (checkConfirmation scenario_env (db_after scenario_submission) 1)))) \<and>
   list_all (\<lambda>r. status r = Submitted)
     (drop (length (orders (db_after scenario_submission)))
        (orders (db_after (checkConfirmation scenario_env (db_after scenario_submission) 1)))) \<and>
   selectSubmitted scenario_env (db_after scenario_submission) =
     filter (\<lambda>r. status r \<noteq> Confirmed \<and> status r \<noteq> Failed \<and>
                  order_id r \<notin> set (lockedOrderIds scenario_env))
       (orders (db_after scenario_submission))"
proof -
  have r0: "reachable scenario_db"
    by (rule reachable.initial) (simp add: scenario_db_def)
  have r1: "reachable (db_after scenario_submission)"
    unfolding scenario_submission_def by (rule reachable.later[OF r0 step.submit])
  have s: "step (db_after scenario_submission)
     (db_after (checkConfirmation scenario_env (db_after scenario_submission) 1))"
    by (rule step.settle)
  have a: "map status (orders (db_after scenario_submission)) = [Submitted]"
    by (simp add: scenario_defs submission_defs Let_def)
  have b: "map status (orders (db_after (checkConfirmation scenario_env
      (db_after scenario_submission) 1))) = [Confirmed]"
    by (simp add: scenario_defs submission_defs settlement_defs Let_def)
  from order_status_machine[OF r1 s, of scenario_env] r1 s a b show ?thesis
    by (intro conjI) blast+
qed

end
